theory Spec2Isabelle
  imports Complex_Main "HOL-Library.Word"
begin

section \<open>Data model\<close>

text \<open>
  The structs of \<^verbatim>\<open>ssd_core.h\<close> and \<^verbatim>\<open>ssd_core.cpp\<close>. A C++ \<^verbatim>\<open>double\<close> is
  modelled as a \<^typ>\<open>real\<close>: the arithmetic is exact, and there is no NaN, no infinity and
  no rounding. The model therefore follows the code only while every value the code computes
  stays finite: with a drive of \<open>1e200\<close>, phase 2 of the code computes \<open>inf - inf\<close>, a NaN that
  \<^verbatim>\<open>std::max\<close> passes on, and the reals have nothing of the kind. The predicate
  \<open>step_defined\<close> below bounds what a step reads so that no value on the way to the handle's
  inertia, heat or policy overflows; a theorem about every input carries it as a hypothesis
  where its conclusion would be false of the code after an overflow. A 32-bit \<^verbatim>\<open>int\<close> is
  an \<^typ>\<open>int\<close> (the overflow of \<^verbatim>\<open>N * N\<close> is excluded by \<open>wf_handle\<close> below), a
  \<^verbatim>\<open>std::vector<double>\<close> is a \<^typ>\<open>real list\<close>.
\<close>

record SSDParams =
  G0 :: real
  g :: real
  eps_noise :: real
  eta :: real
  rho :: real
  lam :: real
  kappa_min :: real
  alpha :: real
  beta_E :: real
  Theta0 :: real
  a1 :: real
  a2 :: real
  h0 :: real
  gamma :: real
  T0 :: real
  c1 :: real
  c2 :: real
  sigma :: real
  delta_w :: real
  delta_kappa :: real
  c0_cool :: real
  q_relax :: real
  eps_relax :: real
  eps0 :: real
  d1 :: real
  d2 :: real
  b_path :: real

record SSDTelemetry =
  out_E :: real
  out_Theta :: real
  out_h :: real
  out_T :: real
  out_H :: real
  out_J_norm :: real
  out_align_eff :: real
  out_kappa_mean :: real
  out_current :: int
  out_did_jump :: int
  out_rewired_to :: int

text \<open>
  The handle owns a \<^verbatim>\<open>std::mt19937_64\<close> and two distribution objects. They belong to
  the C++ standard library, not to the repository, so the generator is a parameter: a
  state type \<open>'g\<close> (the engine together with the distributions' internal state) and the
  three operations the code performs on it. \<open>rs_uniform\<close> is \<^verbatim>\<open>h->uni01(h->rng)\<close>,
  \<open>rs_normal\<close> is \<^verbatim>\<open>h->norm01(h->rng)\<close>; both return the draw and the new state.
\<close>

record 'g RandomSource =
  rs_seed :: "64 word \<Rightarrow> 'g"
  rs_uniform :: "'g \<Rightarrow> real \<times> 'g"
  rs_normal :: "'g \<Rightarrow> real \<times> 'g"

record 'g SSDHandle =
  h_N :: int
  h_current :: int
  h_kappa :: "real list"
  h_w :: "real list"
  h_E :: real
  h_F :: real
  h_T :: real
  h_pi :: "real list"
  h_prm :: SSDParams
  h_rng :: 'g

text \<open>The default member initialisers of \<^verbatim>\<open>struct SSDParams\<close>.\<close>

definition default_params :: SSDParams where
  "default_params =
     \<lparr>G0 = 0.5, g = 0.7, eps_noise = 0.0, eta = 0.3, rho = 0.3, lam = 0.02, kappa_min = 0.0,
      alpha = 0.6, beta_E = 0.15,
      Theta0 = 1.0, a1 = 0.5, a2 = 0.4, h0 = 0.2, gamma = 0.8,
      T0 = 0.3, c1 = 0.5, c2 = 0.6, sigma = 0.2,
      delta_w = 0.2, delta_kappa = 0.2, c0_cool = 0.6, q_relax = 0.1, eps_relax = 0.01,
      eps0 = 0.02, d1 = 0.2, d2 = 0.2, b_path = 0.5\<rparr>"

text \<open>
  The shape every handle built by \<^verbatim>\<open>ssd_create\<close> has and every step keeps: outside it
  the C++ code indexes its vectors out of range.
\<close>

definition wf_handle :: "'g SSDHandle \<Rightarrow> bool" where
  "wf_handle h \<longleftrightarrow>
     0 < h_N h \<and> h_N h * h_N h < 2 ^ 31 \<and>
     0 \<le> h_current h \<and> h_current h < h_N h \<and>
     length (h_kappa h) = nat (h_N h * h_N h) \<and>
     length (h_w h) = nat (h_N h * h_N h) \<and>
     length (h_pi h) = nat (h_N h)"

text \<open>The contract of \<^verbatim>\<open>std::uniform_real_distribution<double>(0.0, 1.0)\<close>: a draw lies in [0,1).\<close>

definition uniform01 :: "'g RandomSource \<Rightarrow> bool" where
  "uniform01 rs \<longleftrightarrow> (\<forall>r. 0 \<le> fst (rs_uniform rs r) \<and> fst (rs_uniform rs r) < 1)"

section \<open>Steps within the range of a double\<close>

text \<open>
  A step is within range when the handle is well-formed, the uniform draws lie in [0,1), and
  every number the step reads (the drive, \<open>dt\<close>, the parameters, the normal draws, and the
  inertia, weights, policy, \<open>E\<close>, \<open>F\<close> and \<open>T\<close> of the handle) has magnitude at most \<open>1e30\<close>.
  The flow then stays below \<open>3e90\<close> in magnitude, the inertia that phase 2 writes below \<open>1e271\<close>
  and the heat below \<open>1e91\<close> (\<open>step_defined_magnitudes\<close>), all far from the largest finite
  double, about \<open>1.8e308\<close>: no infinity and no NaN reaches the inertia, the heat, the
  temperature or the logits. \<open>q_relax\<close> in [0,1] keeps the relax count within \<open>[1, N * N]\<close>,
  where \<^verbatim>\<open>std::partial_sort\<close> is defined and the conversion of the rounded product to
  \<^verbatim>\<open>int\<close> is in range.
\<close>

definition in_range :: "real \<Rightarrow> bool" where
  "in_range x \<longleftrightarrow> \<bar>x\<bar> \<le> 10 ^ 30"

definition tame_params :: "SSDParams \<Rightarrow> bool" where
  "tame_params prm \<longleftrightarrow>
     list_all in_range
       [G0 prm, g prm, eps_noise prm, eta prm, rho prm, lam prm, kappa_min prm,
        alpha prm, beta_E prm, Theta0 prm, a1 prm, a2 prm, h0 prm, gamma prm,
        T0 prm, c1 prm, c2 prm, sigma prm, delta_w prm, delta_kappa prm, c0_cool prm,
        q_relax prm, eps_relax prm, eps0 prm, d1 prm, d2 prm, b_path prm]
     \<and> 0 \<le> q_relax prm \<and> q_relax prm \<le> 1"

definition step_defined :: "'g RandomSource \<Rightarrow> 'g SSDHandle \<Rightarrow> real \<Rightarrow> real \<Rightarrow> bool" where
  "step_defined rs h p dt \<longleftrightarrow>
     wf_handle h \<and> uniform01 rs \<and> (\<forall>r. in_range (fst (rs_normal rs r))) \<and>
     in_range p \<and> in_range dt \<and> tame_params (h_prm h) \<and>
     list_all in_range (h_kappa h) \<and> list_all in_range (h_w h) \<and> list_all in_range (h_pi h) \<and>
     in_range (h_E h) \<and> in_range (h_F h) \<and> in_range (h_T h)"

section \<open>Helpers of \<^verbatim>\<open>ssd_core.cpp\<close>\<close>

definition clip :: "real \<Rightarrow> real \<Rightarrow> real \<Rightarrow> real" where
  "clip x lo hi = (if x < lo then lo else if x > hi then hi else x)"

definition idx :: "int \<Rightarrow> int \<Rightarrow> int \<Rightarrow> int" where
  "idx i j n = i * n + j"

text \<open>The argmax loop of the one-hot branch: \<open>arg\<close> moves only on a strictly larger logit.\<close>

fun argmax_from :: "real list \<Rightarrow> nat \<Rightarrow> nat list \<Rightarrow> nat" where
  "argmax_from logits arg [] = arg"
| "argmax_from logits arg (i # is) =
     argmax_from logits (if logits ! i > logits ! arg then i else arg) is"

text \<open>\<^verbatim>\<open>*std::max_element(first, last)\<close> on a non-empty range: the largest value.\<close>

definition max_element :: "real list \<Rightarrow> real" where
  "max_element xs = foldl max (hd xs) (tl xs)"

definition softmax_temp :: "real list \<Rightarrow> real \<Rightarrow> real list" where
  "softmax_temp logits T =
     (let n = length logits in
      if n = 0 then []
      else if T \<le> 1 / 10 ^ 8 then
        (replicate n 0) [argmax_from logits 0 [1..<n] := 1]
      else
        (let maxv = max_element logits;
             es = map (\<lambda>l. exp ((l - maxv) / T)) logits;
             sum0 = foldl (+) 0 es;
             sum1 = (if sum0 \<le> 0 then 1 else sum0)
         in map (\<lambda>e. e / sum1) es))"

definition entropy_norm :: "real list \<Rightarrow> real" where
  "entropy_norm p =
     (let n = length p in
      if n = 0 then 0
      else
        (let H = foldl (\<lambda>H pk. H + - (let x = (if pk \<le> 1 / 10 ^ 12 then 1 / 10 ^ 12 else pk)
                                       in x * ln x)) 0 p;
             Hmax = ln (real n)
         in if Hmax > 0 then H / Hmax else 0))"

section \<open>\<^verbatim>\<open>ssd_create\<close>\<close>

text \<open>
  A null pointer is \<open>None\<close>. The constructor sizes the two matrices with the \<^verbatim>\<open>int\<close>
  product \<^verbatim>\<open>n*n\<close>, which overflows for \<open>N\<close> from 46341 on: undefined behaviour in C++ (at
  \<open>N = 46341\<close> the wrapped size is negative, the vector constructor throws, and
  \<^verbatim>\<open>ssd_core.cpp\<close> catches and returns a null pointer; \<^verbatim>\<open>ssd_align_leap_dll.cpp\<close> has
  no \<^verbatim>\<open>try\<close> block). The model returns \<open>None\<close> for every such \<open>N\<close>, and no theorem below
  is about a handle created there. An allocation that fails for lack of memory is not modelled
  (memory is unbounded here).
\<close>

definition ssd_create ::
  "'g RandomSource \<Rightarrow> int \<Rightarrow> SSDParams option \<Rightarrow> 64 word \<Rightarrow> 'g SSDHandle option" where
  "ssd_create rs n params seed =
     (if n \<le> 0 then None
      else if 2 ^ 31 \<le> n * n then None
      else
        (let p = (case params of Some q \<Rightarrow> q | None \<Rightarrow> default_params);
             seed1 = (if seed = 0 then 123456789 else seed)
         in Some \<lparr>h_N = n, h_current = 0,
                  h_kappa = replicate (nat (n * n)) 0, h_w = replicate (nat (n * n)) 0,
                  h_E = 0, h_F = 0, h_T = T0 p,
                  h_pi = replicate (nat n) (1 / real_of_int (max 1 n)),
                  h_prm = p, h_rng = rs_seed rs seed1\<rparr>))"

section \<open>\<^verbatim>\<open>ssd_step\<close> of \<^verbatim>\<open>ssd_core.cpp\<close>\<close>

subsection \<open>Phases 1 to 3\<close>

text \<open>
  The iterations over \<^verbatim>\<open>i < N * N\<close> run over the elements of \<open>kappa\<close>, whose length is
  \<^verbatim>\<open>N * N\<close> in a well-formed handle. Phase 1 fills \<open>j\<close> and draws one normal value per
  edge when \<open>eps_noise > 0\<close>; \<open>J_norm\<close> accumulates the squares from left to right.
\<close>

fun AlignFlow :: "'g RandomSource \<Rightarrow> SSDParams \<Rightarrow> real \<Rightarrow> real list \<Rightarrow> 'g \<Rightarrow> real list \<times> 'g" where
  "AlignFlow rs prm p [] r = ([], r)"
| "AlignFlow rs prm p (k # ks) r =
     (let val0 = (G0 prm + g prm * k) * p;
          vr = (if eps_noise prm > 0
                then (val0 + eps_noise prm * fst (rs_normal rs r), snd (rs_normal rs r))
                else (val0, r));
          rest = AlignFlow rs prm p ks (snd vr)
      in (fst vr # fst rest, snd rest))"

definition J_norm_of :: "real list \<Rightarrow> real" where
  "J_norm_of j = sqrt (foldl (\<lambda>s v. s + v * v) 0 j)"

definition UpdateKappa :: "SSDParams \<Rightarrow> real \<Rightarrow> real \<Rightarrow> real list \<Rightarrow> real list \<Rightarrow> real list" where
  "UpdateKappa prm p dt kappa j =
     map2 (\<lambda>k ji.
        let align_work = p * ji - rho prm * ji * ji;
            gain = eta prm * align_work;
            decay = lam prm * (k - kappa_min prm);
            new_kappa = k + (gain - decay) * dt
        in max new_kappa (kappa_min prm)) kappa j"

definition UpdateHeat :: "SSDParams \<Rightarrow> real \<Rightarrow> real \<Rightarrow> real \<Rightarrow> real \<Rightarrow> real" where
  "UpdateHeat prm p dt J_norm E =
     (let excess_pressure = max (\<bar>p\<bar> - J_norm) 0;
          dE = alpha prm * excess_pressure - beta_E prm * E
      in max (E + dE * dt) 0)"

subsection \<open>Phase 5, jump branch\<close>

fun build_logits ::
  "'g RandomSource \<Rightarrow> SSDParams \<Rightarrow> real list \<Rightarrow> int \<Rightarrow> int \<Rightarrow> int list \<Rightarrow> 'g \<Rightarrow> real list \<times> 'g" where
  "build_logits rs prm kappa cur n [] r = ([], r)"
| "build_logits rs prm kappa cur n (k # ks) r =
     (let l0 = kappa ! nat (idx cur k n);
          l1 = (if k = cur then l0 - 1 else l0);
          l2 = l1 + sigma prm * fst (rs_normal rs r);
          rest = build_logits rs prm kappa cur n ks (snd (rs_normal rs r))
      in (l2 # fst rest, snd rest))"

text \<open>The walk along the cumulative distribution; \<open>fallback\<close> is \<^verbatim>\<open>N - 1\<close>.\<close>

fun sample_cdf :: "real \<Rightarrow> real list \<Rightarrow> real \<Rightarrow> int \<Rightarrow> int \<Rightarrow> int" where
  "sample_cdf r [] cdf k fallback = fallback"
| "sample_cdf r (x # xs) cdf k fallback =
     (if r \<le> cdf + x then k else sample_cdf r xs (cdf + x) (k + 1) fallback)"

text \<open>\<^verbatim>\<open>std::round\<close> rounds halfway cases away from zero.\<close>

definition c_round :: "real \<Rightarrow> int" where
  "c_round x = (if 0 \<le> x then \<lfloor>x + 1 / 2\<rfloor> else \<lceil>x - 1 / 2\<rceil>)"

text \<open>
  The product \<^verbatim>\<open>q_relax * total_edges\<close> is exact here and rounded to a double in the
  code, so the two counts differ by one where the product is within rounding of a half
  (\<open>0.58 * 25\<close> is \<open>14.499999999999998\<close> in doubles and rounds to 14; the exact 14.5 rounds
  to 15). The concrete steps evaluated below have the products 0 and 0.4, and the general
  theorems use of the count only that it selects some positions of the matrix.
\<close>

definition relax_count :: "SSDParams \<Rightarrow> int \<Rightarrow> int" where
  "relax_count prm n = max 1 (c_round (q_relax prm * real_of_int (n * n)))"

text \<open>
  \<^verbatim>\<open>std::partial_sort\<close> with the comparator \<^verbatim>\<open>abs(j[a]) > abs(j[b])\<close> puts the
  \<open>cnt\<close> indices of largest \<open>\<bar>j\<bar>\<close> first, in descending order. The standard leaves the order of
  equal elements open, so which of several edges of equal flow the code relaxes depends on
  the library; the model keeps them in index order. Below, the relaxation is evaluated only
  where the largest flow is on one edge alone (\<open>leak_state\<close>) or in statements that hold
  whichever of the tied edges is relaxed, and the floor of C1 is proved for every list of
  positions (\<open>relax_fold_floor\<close>). A count above \<^verbatim>\<open>N * N\<close> is undefined in C++ (the model
  then takes every index); \<open>step_defined\<close> excludes it.
\<close>

definition partial_sort_indices :: "real list \<Rightarrow> nat \<Rightarrow> nat \<Rightarrow> nat list" where
  "partial_sort_indices j m cnt = take cnt (sort_key (\<lambda>a. - \<bar>j ! a\<bar>) [0..<m])"

definition RelaxTop :: "SSDParams \<Rightarrow> int \<Rightarrow> real list \<Rightarrow> real list \<Rightarrow> real list" where
  "RelaxTop prm n j kappa =
     foldl (\<lambda>ks pos. ks [pos := max (ks ! pos - eps_relax prm) (kappa_min prm)]) kappa
       (partial_sort_indices j (nat (n * n)) (nat (relax_count prm n)))"

text \<open>
  The jump branch, from the handle as phases 1 to 4 left it (its generator already advanced
  by the jump draw) and the phase-1 flow \<open>j\<close>. Returns the handle and \<open>selected\<close>.
\<close>

definition JumpBranch :: "'g RandomSource \<Rightarrow> 'g SSDHandle \<Rightarrow> real list \<Rightarrow> 'g SSDHandle \<times> int" where
  "JumpBranch rs h j =
     (let n = h_N h; prm = h_prm h;
          lg = build_logits rs prm (h_kappa h) (h_current h) n [0..n - 1] (h_rng h);
          pi1 = softmax_temp (fst lg) (h_T h);
          ur = rs_uniform rs (snd lg);
          selected = sample_cdf (fst ur) pi1 0 0 (n - 1);
          edge_idx = nat (idx (h_current h) selected n);
          w1 = (h_w h) [edge_idx := h_w h ! edge_idx + delta_w prm];
          kappa1 = (h_kappa h) [edge_idx := h_kappa h ! edge_idx + delta_kappa prm];
          E1 = h_E h * c0_cool prm;
          kappa2 = RelaxTop prm n j kappa1
      in (h\<lparr>h_current := selected, h_kappa := kappa2, h_w := w1, h_E := E1,
             h_pi := pi1, h_rng := snd ur\<rparr>, selected))"

subsection \<open>Phase 5, no-jump branch\<close>

fun best_from :: "real list \<Rightarrow> int \<Rightarrow> int \<Rightarrow> int list \<Rightarrow> int \<Rightarrow> real \<Rightarrow> int" where
  "best_from kappa cur n [] best best_value = best"
| "best_from kappa cur n (k # ks) best best_value =
     (let value0 = kappa ! nat (idx cur k n);
          value = (if k = cur then value0 - 1 / 10 ^ 6 else value0)
      in if value > best_value then best_from kappa cur n ks k value
         else best_from kappa cur n ks best best_value)"

definition EpsGreedyBranch :: "'g RandomSource \<Rightarrow> 'g SSDHandle \<Rightarrow> real \<Rightarrow> 'g SSDHandle \<times> int" where
  "EpsGreedyBranch rs h kappa_mean =
     (let n = h_N h; prm = h_prm h;
          eps = clip (eps0 prm + d1 prm * h_E h - d2 prm * kappa_mean) 0 1;
          u1 = rs_uniform rs (h_rng h);
          h1 = (if fst u1 < eps then
                  (let u2 = rs_uniform rs (snd u1);
                       k0 = \<lfloor>fst u2 * real_of_int n\<rfloor>;
                       k = (if k0 = n then n - 1 else k0);
                       edge_idx = nat (idx (h_current h) k n)
                   in if k \<noteq> h_current h
                      then h\<lparr>h_w := (h_w h) [edge_idx := h_w h ! edge_idx + 0.05],
                             h_kappa := (h_kappa h) [edge_idx := h_kappa h ! edge_idx + 0.05],
                             h_rng := snd u2\<rparr>
                      else h\<lparr>h_rng := snd u2\<rparr>)
                else h\<lparr>h_rng := snd u1\<rparr>);
          best = best_from (h_kappa h1) (h_current h1) n [0..n - 1] (h_current h1) (- (10 ^ 300))
      in (h1\<lparr>h_current := best\<rparr>, best))"

subsection \<open>The step\<close>

text \<open>
  \<open>step_body\<close> is \<^verbatim>\<open>ssd_step\<close> past its null check: the handle after the call and the
  values the telemetry block assigns. \<open>ssd_step\<close> adds the two pointers: a null handle returns
  at once, a null \<open>out\<close> skips the telemetry block.
\<close>

definition step_body :: "'g RandomSource \<Rightarrow> 'g SSDHandle \<Rightarrow> real \<Rightarrow> real \<Rightarrow> 'g SSDHandle \<times> SSDTelemetry" where
  "step_body rs h p dt =
     (let n = h_N h; prm = h_prm h;
          jr = AlignFlow rs prm p (h_kappa h) (h_rng h);
          j = fst jr;
          J_norm = J_norm_of j;
          h1 = h\<lparr>h_kappa := UpdateKappa prm p dt (h_kappa h) j, h_rng := snd jr\<rparr>;
          h2 = h1\<lparr>h_E := UpdateHeat prm p dt J_norm (h_E h1)\<rparr>;
          kappa_mean = foldl (+) 0 (h_kappa h2) / real_of_int (n * n);
          Theta = Theta0 prm + a1 prm * kappa_mean - a2 prm * h_F h2;
          hrate = h0 prm * exp ((h_E h2 - Theta) / max (1 / 10 ^ 8) (gamma prm));
          policy_entropy = (if h_pi h2 = [] then 1 else entropy_norm (h_pi h2));
          h3 = h2\<lparr>h_T := max (1 / 10 ^ 6) (T0 prm + c1 prm * h_E h2 - c2 prm * policy_entropy)\<rparr>;
          jump_probability = 1 - exp (- hrate * dt);
          u = rs_uniform rs (h_rng h3);
          h4 = h3\<lparr>h_rng := snd u\<rparr>;
          did_jump = (fst u < jump_probability);
          br = (if did_jump then JumpBranch rs h4 j else EpsGreedyBranch rs h4 kappa_mean);
          h5 = fst br;
          rewired_to = snd br;
          align_efficiency = (if \<bar>p\<bar> > 1 / 10 ^ 8 then J_norm / \<bar>p\<bar> else 0)
      in (h5, \<lparr>out_E = h_E h5, out_Theta = Theta, out_h = hrate, out_T = h_T h5,
                out_H = policy_entropy, out_J_norm = J_norm, out_align_eff = align_efficiency,
                out_kappa_mean = kappa_mean, out_current = h_current h5,
                out_did_jump = (if did_jump then 1 else 0), out_rewired_to = rewired_to\<rparr>))"

definition ssd_step ::
  "'g RandomSource \<Rightarrow> 'g SSDHandle option \<Rightarrow> real \<Rightarrow> real \<Rightarrow> SSDTelemetry option
     \<Rightarrow> 'g SSDHandle option \<times> SSDTelemetry option" where
  "ssd_step rs h p dt out =
     (case h of
        None \<Rightarrow> (None, out)
      | Some hv \<Rightarrow>
          (let res = step_body rs hv p dt
           in (Some (fst res), (case out of None \<Rightarrow> None | Some _ \<Rightarrow> Some (snd res)))))"

text \<open>
  \<open>after_phase2\<close> is \<^verbatim>\<open>ssd_step\<close> from phase 3 to its end (\<^verbatim>\<open>ssd_core.cpp\<close>, lines 167
  to 307) as a function of the handle that phase 2 has written, the flow \<open>j\<close> of phase 1 and
  its norm: the statements of \<open>step_body\<close> from \<open>h2\<close> on, word for word. \<open>step_body\<close> is
  \<open>after_phase2\<close> applied to the outcome of phases 1 and 2 (\<open>step_body_after_phase2\<close> below).
\<close>

definition after_phase2 ::
  "'g RandomSource \<Rightarrow> 'g SSDHandle \<Rightarrow> real list \<Rightarrow> real \<Rightarrow> real \<Rightarrow> real
     \<Rightarrow> 'g SSDHandle \<times> SSDTelemetry" where
  "after_phase2 rs h1 j J_norm p dt =
     (let n = h_N h1; prm = h_prm h1;
          h2 = h1\<lparr>h_E := UpdateHeat prm p dt J_norm (h_E h1)\<rparr>;
          kappa_mean = foldl (+) 0 (h_kappa h2) / real_of_int (n * n);
          Theta = Theta0 prm + a1 prm * kappa_mean - a2 prm * h_F h2;
          hrate = h0 prm * exp ((h_E h2 - Theta) / max (1 / 10 ^ 8) (gamma prm));
          policy_entropy = (if h_pi h2 = [] then 1 else entropy_norm (h_pi h2));
          h3 = h2\<lparr>h_T := max (1 / 10 ^ 6) (T0 prm + c1 prm * h_E h2 - c2 prm * policy_entropy)\<rparr>;
          jump_probability = 1 - exp (- hrate * dt);
          u = rs_uniform rs (h_rng h3);
          h4 = h3\<lparr>h_rng := snd u\<rparr>;
          did_jump = (fst u < jump_probability);
          br = (if did_jump then JumpBranch rs h4 j else EpsGreedyBranch rs h4 kappa_mean);
          h5 = fst br;
          rewired_to = snd br;
          align_efficiency = (if \<bar>p\<bar> > 1 / 10 ^ 8 then J_norm / \<bar>p\<bar> else 0)
      in (h5, \<lparr>out_E = h_E h5, out_Theta = Theta, out_h = hrate, out_T = h_T h5,
                out_H = policy_entropy, out_J_norm = J_norm, out_align_eff = align_efficiency,
                out_kappa_mean = kappa_mean, out_current = h_current h5,
                out_did_jump = (if did_jump then 1 else 0), out_rewired_to = rewired_to\<rparr>))"

section \<open>\<^verbatim>\<open>ssd_step\<close> of \<^verbatim>\<open>ssd_align_leap_dll.cpp\<close>\<close>

text \<open>
  The second implementation. Only the parts whose text differs from \<^verbatim>\<open>ssd_core.cpp\<close>
  in more than names and layout are defined again: the maximum loop of the softmax, the two
  floors written as conditionals, the heat update in two statements, and the telemetry
  block, which computes the entropy of \<open>pi\<close> afresh. The logit loop, the sampling walk, the
  no-jump branch and \<^verbatim>\<open>entropy_norm\<close> are the same statements in both files.
\<close>

fun maxv_loop :: "real list \<Rightarrow> real \<Rightarrow> nat list \<Rightarrow> real" where
  "maxv_loop logits maxv [] = maxv"
| "maxv_loop logits maxv (i # is) =
     maxv_loop logits
       (if logits ! i > maxv then (if i = i then logits ! i else maxv) else maxv) is"

definition softmax_temp_dll :: "real list \<Rightarrow> real \<Rightarrow> real list" where
  "softmax_temp_dll logits T =
     (let n = length logits in
      if n = 0 then []
      else if T \<le> 1 / 10 ^ 8 then
        (replicate n 0) [argmax_from logits 0 [1..<n] := 1]
      else
        (let maxv = maxv_loop logits (logits ! 0) [1..<n];
             es = map (\<lambda>l. exp ((l - maxv) / T)) logits;
             sum0 = foldl (+) 0 es;
             sum1 = (if sum0 \<le> 0 then 1 else sum0)
         in map (\<lambda>e. e / sum1) es))"

definition UpdateKappa_dll :: "SSDParams \<Rightarrow> real \<Rightarrow> real \<Rightarrow> real list \<Rightarrow> real list \<Rightarrow> real list" where
  "UpdateKappa_dll prm p dt kappa j =
     map2 (\<lambda>k ji.
        let gain = eta prm * (p * ji - rho prm * ji * ji);
            decay = lam prm * (k - kappa_min prm);
            k1 = k + (gain - decay) * dt
        in if k1 < kappa_min prm then kappa_min prm else k1) kappa j"

definition UpdateHeat_dll :: "SSDParams \<Rightarrow> real \<Rightarrow> real \<Rightarrow> real \<Rightarrow> real \<Rightarrow> real" where
  "UpdateHeat_dll prm p dt J_norm E =
     (let dE = alpha prm * max (\<bar>p\<bar> - J_norm) 0 - beta_E prm * E;
          E1 = E + dE * dt
      in if E1 < 0 then 0 else E1)"

definition RelaxTop_dll :: "SSDParams \<Rightarrow> int \<Rightarrow> real list \<Rightarrow> real list \<Rightarrow> real list" where
  "RelaxTop_dll prm n j kappa =
     foldl (\<lambda>ks pos. let k = ks ! pos - eps_relax prm
                      in ks [pos := (if k < kappa_min prm then kappa_min prm else k)]) kappa
       (partial_sort_indices j (nat (n * n)) (nat (relax_count prm n)))"

definition JumpBranch_dll :: "'g RandomSource \<Rightarrow> 'g SSDHandle \<Rightarrow> real list \<Rightarrow> 'g SSDHandle \<times> int" where
  "JumpBranch_dll rs h j =
     (let n = h_N h; prm = h_prm h;
          lg = build_logits rs prm (h_kappa h) (h_current h) n [0..n - 1] (h_rng h);
          pi1 = softmax_temp_dll (fst lg) (h_T h);
          ur = rs_uniform rs (snd lg);
          ksel = sample_cdf (fst ur) pi1 0 0 (n - 1);
          w1 = (h_w h) [nat (idx (h_current h) ksel n) :=
                  h_w h ! nat (idx (h_current h) ksel n) + delta_w prm];
          kappa1 = (h_kappa h) [nat (idx (h_current h) ksel n) :=
                  h_kappa h ! nat (idx (h_current h) ksel n) + delta_kappa prm];
          E1 = h_E h * c0_cool prm;
          kappa2 = RelaxTop_dll prm n j kappa1
      in (h\<lparr>h_current := ksel, h_kappa := kappa2, h_w := w1, h_E := E1,
             h_pi := pi1, h_rng := snd ur\<rparr>, ksel))"

definition step_body_dll :: "'g RandomSource \<Rightarrow> 'g SSDHandle \<Rightarrow> real \<Rightarrow> real \<Rightarrow> 'g SSDHandle \<times> SSDTelemetry" where
  "step_body_dll rs h p dt =
     (let n = h_N h; prm = h_prm h;
          jr = AlignFlow rs prm p (h_kappa h) (h_rng h);
          j = fst jr;
          J_norm = J_norm_of j;
          h1 = h\<lparr>h_kappa := UpdateKappa_dll prm p dt (h_kappa h) j, h_rng := snd jr\<rparr>;
          h2 = h1\<lparr>h_E := UpdateHeat_dll prm p dt J_norm (h_E h1)\<rparr>;
          km = foldl (+) 0 (h_kappa h2) / real_of_int (n * n);
          Theta = Theta0 prm + a1 prm * km - a2 prm * h_F h2;
          hrate = h0 prm * exp ((h_E h2 - Theta) / max (1 / 10 ^ 8) (gamma prm));
          Hn = (if h_pi h2 = [] then 1 else entropy_norm (h_pi h2));
          h3 = h2\<lparr>h_T := max (1 / 10 ^ 6) (T0 prm + c1 prm * h_E h2 - c2 prm * Hn)\<rparr>;
          p_jump = 1 - exp (- hrate * dt);
          u = rs_uniform rs (h_rng h3);
          h4 = h3\<lparr>h_rng := snd u\<rparr>;
          did_jump = (fst u < p_jump);
          br = (if did_jump then JumpBranch_dll rs h4 j else EpsGreedyBranch rs h4 km);
          h5 = fst br;
          rewired_to = snd br;
          eff = (if \<bar>p\<bar> > 1 / 10 ^ 8 then J_norm / \<bar>p\<bar> else 0)
      in (h5, \<lparr>out_E = h_E h5, out_Theta = Theta, out_h = hrate, out_T = h_T h5,
                out_H = (if h_pi h5 = [] then 1 else entropy_norm (h_pi h5)),
                out_J_norm = J_norm, out_align_eff = eff,
                out_kappa_mean = km, out_current = h_current h5,
                out_did_jump = (if did_jump then 1 else 0), out_rewired_to = rewired_to\<rparr>))"

definition ssd_step_dll ::
  "'g RandomSource \<Rightarrow> 'g SSDHandle option \<Rightarrow> real \<Rightarrow> real \<Rightarrow> SSDTelemetry option
     \<Rightarrow> 'g SSDHandle option \<times> SSDTelemetry option" where
  "ssd_step_dll rs h p dt out =
     (case h of
        None \<Rightarrow> (None, out)
      | Some hv \<Rightarrow>
          (let res = step_body_dll rs hv p dt
           in (Some (fst res), (case out of None \<Rightarrow> None | Some _ \<Rightarrow> Some (snd res)))))"

section \<open>A generator for concrete inputs\<close>

text \<open>
  The simplest generator: every uniform draw is \<open>u\<close>, every normal draw is \<open>z\<close>. It stands
  for a stretch of a real generator's output in which the draws consumed by one step
  happen to take these values.
\<close>

definition const_rng :: "real \<Rightarrow> real \<Rightarrow> unit RandomSource" where
  "const_rng u z = \<lparr>rs_seed = (\<lambda>_. ()), rs_uniform = (\<lambda>r. (u, r)), rs_normal = (\<lambda>r. (z, r))\<rparr>"

definition zero_telemetry :: SSDTelemetry where
  "zero_telemetry =
     \<lparr>out_E = 0, out_Theta = 0, out_h = 0, out_T = 0, out_H = 0, out_J_norm = 0,
      out_align_eff = 0, out_kappa_mean = 0, out_current = 0, out_did_jump = 0,
      out_rewired_to = 0\<rparr>"

section \<open>Names for the intermediate values of a step\<close>

text \<open>
  The values \<^verbatim>\<open>ssd_step\<close> holds in local variables between its phases, as functions of
  the handle before the call: the flow \<open>j\<close>, \<open>kappa_mean\<close>, \<open>Theta\<close>, \<open>hrate\<close>, the handle as
  it stands when the branch is entered, the outcome of the jump test, and in the jump branch
  the logits and the sampled node.
\<close>

definition flow_of :: "'g RandomSource \<Rightarrow> 'g SSDHandle \<Rightarrow> real \<Rightarrow> real list" where
  "flow_of rs h p = fst (AlignFlow rs (h_prm h) p (h_kappa h) (h_rng h))"

definition heat_of :: "'g RandomSource \<Rightarrow> 'g SSDHandle \<Rightarrow> real \<Rightarrow> real \<Rightarrow> real" where
  "heat_of rs h p dt = UpdateHeat (h_prm h) p dt (J_norm_of (flow_of rs h p)) (h_E h)"

definition kappa_mean_of :: "'g RandomSource \<Rightarrow> 'g SSDHandle \<Rightarrow> real \<Rightarrow> real \<Rightarrow> real" where
  "kappa_mean_of rs h p dt =
     foldl (+) 0 (UpdateKappa (h_prm h) p dt (h_kappa h) (flow_of rs h p))
       / real_of_int (h_N h * h_N h)"

definition Theta_of :: "'g RandomSource \<Rightarrow> 'g SSDHandle \<Rightarrow> real \<Rightarrow> real \<Rightarrow> real" where
  "Theta_of rs h p dt =
     Theta0 (h_prm h) + a1 (h_prm h) * kappa_mean_of rs h p dt - a2 (h_prm h) * h_F h"

definition hrate_of :: "'g RandomSource \<Rightarrow> 'g SSDHandle \<Rightarrow> real \<Rightarrow> real \<Rightarrow> real" where
  "hrate_of rs h p dt =
     h0 (h_prm h) *
       exp ((heat_of rs h p dt - Theta_of rs h p dt) / max (1 / 10 ^ 8) (gamma (h_prm h)))"

definition entropy_of :: "'g SSDHandle \<Rightarrow> real" where
  "entropy_of h = (if h_pi h = [] then 1 else entropy_norm (h_pi h))"

definition jump_draw :: "'g RandomSource \<Rightarrow> 'g SSDHandle \<Rightarrow> real \<Rightarrow> real \<times> 'g" where
  "jump_draw rs h p = rs_uniform rs (snd (AlignFlow rs (h_prm h) p (h_kappa h) (h_rng h)))"

definition pre_branch :: "'g RandomSource \<Rightarrow> 'g SSDHandle \<Rightarrow> real \<Rightarrow> real \<Rightarrow> 'g SSDHandle" where
  "pre_branch rs h p dt =
     h\<lparr>h_kappa := UpdateKappa (h_prm h) p dt (h_kappa h) (flow_of rs h p),
       h_E := heat_of rs h p dt,
       h_T := max (1 / 10 ^ 6)
                (T0 (h_prm h) + c1 (h_prm h) * heat_of rs h p dt - c2 (h_prm h) * entropy_of h),
       h_rng := snd (jump_draw rs h p)\<rparr>"

definition takes_jump :: "'g RandomSource \<Rightarrow> 'g SSDHandle \<Rightarrow> real \<Rightarrow> real \<Rightarrow> bool" where
  "takes_jump rs h p dt \<longleftrightarrow> fst (jump_draw rs h p) < 1 - exp (- hrate_of rs h p dt * dt)"

definition jump_logits :: "'g RandomSource \<Rightarrow> 'g SSDHandle \<Rightarrow> real list \<times> 'g" where
  "jump_logits rs h =
     build_logits rs (h_prm h) (h_kappa h) (h_current h) (h_N h) [0..h_N h - 1] (h_rng h)"

definition jump_selected :: "'g RandomSource \<Rightarrow> 'g SSDHandle \<Rightarrow> int" where
  "jump_selected rs h =
     sample_cdf (fst (rs_uniform rs (snd (jump_logits rs h))))
       (softmax_temp (fst (jump_logits rs h)) (h_T h)) 0 0 (h_N h - 1)"

definition eps_fires :: "'g RandomSource \<Rightarrow> 'g SSDHandle \<Rightarrow> real \<Rightarrow> bool" where
  "eps_fires rs h km \<longleftrightarrow>
     fst (rs_uniform rs (h_rng h))
       < clip (eps0 (h_prm h) + d1 (h_prm h) * h_E h - d2 (h_prm h) * km) 0 1"

definition eps_target :: "'g RandomSource \<Rightarrow> 'g SSDHandle \<Rightarrow> int" where
  "eps_target rs h =
     (let k0 = \<lfloor>fst (rs_uniform rs (snd (rs_uniform rs (h_rng h)))) * real_of_int (h_N h)\<rfloor>
      in if k0 = h_N h then h_N h - 1 else k0)"

section \<open>Properties named by the specification\<close>

text \<open>\<open>arg\<close> is the first index among the first \<open>m\<close> at which \<open>logits\<close> is largest.\<close>

definition first_max :: "real list \<Rightarrow> nat \<Rightarrow> nat \<Rightarrow> bool" where
  "first_max logits m arg \<longleftrightarrow>
     arg < m \<and> (\<forall>i<m. logits ! i \<le> logits ! arg) \<and> (\<forall>i<arg. logits ! i < logits ! arg)"

section \<open>Concrete inputs\<close>

text \<open>The handle \<^verbatim>\<open>ssd_create\<close> builds for \<open>n\<close> nodes and parameters \<open>q\<close>, with generator state \<open>r\<close>.\<close>

definition fresh :: "int \<Rightarrow> SSDParams \<Rightarrow> 'g \<Rightarrow> 'g SSDHandle" where
  "fresh n q r =
     \<lparr>h_N = n, h_current = 0,
      h_kappa = replicate (nat (n * n)) 0, h_w = replicate (nat (n * n)) 0,
      h_E = 0, h_F = 0, h_T = T0 q,
      h_pi = replicate (nat n) (1 / real_of_int (max 1 n)),
      h_prm = q, h_rng = r\<rparr>"

text \<open>A generator that replays the uniform draws \<open>us\<close> in turn, over and over.\<close>

definition replay_rng :: "real list \<Rightarrow> real \<Rightarrow> nat RandomSource" where
  "replay_rng us z =
     \<lparr>rs_seed = (\<lambda>_. 0), rs_uniform = (\<lambda>r. (us ! (r mod length us), Suc r)),
      rs_normal = (\<lambda>r. (z, r))\<rparr>"

text \<open>The parameters of the scenario of C8; the fields it does not name are those of \<open>q\<close>.\<close>

definition scenario_params :: "SSDParams \<Rightarrow> SSDParams" where
  "scenario_params q =
     q\<lparr>G0 := 0.5, g := 0, eta := 0.3, rho := 0, lam := 0, kappa_min := 0, eps_noise := 0\<rparr>"

text \<open>
  Parameters with a negative \<open>delta_kappa\<close> and a negative \<open>c0_cool\<close>, and a two-node
  handle whose only inertia is on the edge (1,1).
\<close>

definition leak_params :: SSDParams where
  "leak_params =
     \<lparr>G0 = 0, g = 1, eps_noise = 0, eta = 0, rho = 0, lam = 0, kappa_min = 0,
      alpha = 0, beta_E = 0,
      Theta0 = 1, a1 = 0, a2 = 0, h0 = 1, gamma = 1,
      T0 = 1, c1 = 0, c2 = 0, sigma = 0,
      delta_w = 0, delta_kappa = - 1, c0_cool = - 1, q_relax = 0, eps_relax = 1 / 4,
      eps0 = 0, d1 = 0, d2 = 0, b_path = 0\<rparr>"

definition leak_state :: "unit SSDHandle" where
  "leak_state =
     \<lparr>h_N = 2, h_current = 0, h_kappa = [0, 0, 0, 1], h_w = [0, 0, 0, 0],
      h_E = 1, h_F = 0, h_T = 1, h_pi = [1 / 2, 1 / 2],
      h_prm = leak_params, h_rng = ()\<rparr>"

text \<open>
  The defaults with no policy noise, a temperature of 1 whatever the entropy, and a jump
  rate of 1 at zero heat.
\<close>

definition warm_params :: SSDParams where
  "warm_params = default_params\<lparr>sigma := 0, T0 := 1, c2 := 0, h0 := 1, Theta0 := 0, a1 := 0\<rparr>"

section \<open>The step in terms of its intermediate values\<close>

lemma step_body_unfold:
  "step_body rs h p dt =
     (let br = (if takes_jump rs h p dt
                then JumpBranch rs (pre_branch rs h p dt) (flow_of rs h p)
                else EpsGreedyBranch rs (pre_branch rs h p dt) (kappa_mean_of rs h p dt))
      in (fst br,
          \<lparr>out_E = h_E (fst br), out_Theta = Theta_of rs h p dt, out_h = hrate_of rs h p dt,
           out_T = h_T (fst br), out_H = entropy_of h, out_J_norm = J_norm_of (flow_of rs h p),
           out_align_eff = (if \<bar>p\<bar> > 1 / 10 ^ 8 then J_norm_of (flow_of rs h p) / \<bar>p\<bar> else 0),
           out_kappa_mean = kappa_mean_of rs h p dt, out_current = h_current (fst br),
           out_did_jump = (if takes_jump rs h p dt then 1 else 0), out_rewired_to = snd br\<rparr>))"
  by (simp add: step_body_def takes_jump_def pre_branch_def flow_of_def kappa_mean_of_def
    hrate_of_def Theta_of_def heat_of_def entropy_of_def jump_draw_def Let_def)

lemma step_body_after_phase2:
  "step_body rs h p dt =
     after_phase2 rs
       (h\<lparr>h_kappa := UpdateKappa (h_prm h) p dt (h_kappa h)
                        (fst (AlignFlow rs (h_prm h) p (h_kappa h) (h_rng h))),
          h_rng := snd (AlignFlow rs (h_prm h) p (h_kappa h) (h_rng h))\<rparr>)
       (fst (AlignFlow rs (h_prm h) p (h_kappa h) (h_rng h)))
       (J_norm_of (fst (AlignFlow rs (h_prm h) p (h_kappa h) (h_rng h)))) p dt"
  by (simp add: step_body_def after_phase2_def Let_def)



lemma length_softmax_temp: "length (softmax_temp logits T) = length logits"
  by (simp add: softmax_temp_def Let_def)

lemma argmax_from_less:
  "arg < n \<Longrightarrow> \<forall>i\<in>set is. i < n \<Longrightarrow> argmax_from logits arg is < n"
  by (induction "is" arbitrary: arg) simp_all


lemma step_body_state:
  "fst (step_body rs h p dt) =
     (if takes_jump rs h p dt
      then fst (JumpBranch rs (pre_branch rs h p dt) (flow_of rs h p))
      else fst (EpsGreedyBranch rs (pre_branch rs h p dt) (kappa_mean_of rs h p dt)))"
  by (simp add: step_body_unfold Let_def)

lemma step_body_did_jump:
  "out_did_jump (snd (step_body rs h p dt)) = (if takes_jump rs h p dt then 1 else 0)"
  by (simp add: step_body_unfold Let_def)

lemma pre_branch_fields:
  "h_N (pre_branch rs h p dt) = h_N h"
  "h_prm (pre_branch rs h p dt) = h_prm h"
  "h_current (pre_branch rs h p dt) = h_current h"
  "h_w (pre_branch rs h p dt) = h_w h"
  "h_pi (pre_branch rs h p dt) = h_pi h"
  "h_F (pre_branch rs h p dt) = h_F h"
  "h_kappa (pre_branch rs h p dt) = UpdateKappa (h_prm h) p dt (h_kappa h) (flow_of rs h p)"
  "h_E (pre_branch rs h p dt) = heat_of rs h p dt"
  by (simp_all add: pre_branch_def)


lemma JumpBranch_fields:
  "h_N (fst (JumpBranch rs h j)) = h_N h"
  "h_prm (fst (JumpBranch rs h j)) = h_prm h"
  "h_F (fst (JumpBranch rs h j)) = h_F h"
  "h_T (fst (JumpBranch rs h j)) = h_T h"
  "h_E (fst (JumpBranch rs h j)) = h_E h * c0_cool (h_prm h)"
  "h_current (fst (JumpBranch rs h j)) = jump_selected rs h"
  "snd (JumpBranch rs h j) = jump_selected rs h"
  "h_pi (fst (JumpBranch rs h j)) = softmax_temp (fst (jump_logits rs h)) (h_T h)"
  "h_kappa (fst (JumpBranch rs h j)) =
     RelaxTop (h_prm h) (h_N h) j
       ((h_kappa h) [nat (idx (h_current h) (jump_selected rs h) (h_N h)) :=
          h_kappa h ! nat (idx (h_current h) (jump_selected rs h) (h_N h)) + delta_kappa (h_prm h)])"
  by (simp_all add: JumpBranch_def Let_def jump_selected_def jump_logits_def)

lemma EpsGreedyBranch_fields:
  "h_N (fst (EpsGreedyBranch rs h km)) = h_N h"
  "h_prm (fst (EpsGreedyBranch rs h km)) = h_prm h"
  "h_F (fst (EpsGreedyBranch rs h km)) = h_F h"
  "h_T (fst (EpsGreedyBranch rs h km)) = h_T h"
  "h_E (fst (EpsGreedyBranch rs h km)) = h_E h"
  "h_pi (fst (EpsGreedyBranch rs h km)) = h_pi h"
  by (simp_all add: EpsGreedyBranch_def Let_def)

lemma EpsGreedyBranch_kappa:
  "h_kappa (fst (EpsGreedyBranch rs h km)) =
     (if eps_fires rs h km \<and> eps_target rs h \<noteq> h_current h
      then (h_kappa h) [nat (idx (h_current h) (eps_target rs h) (h_N h)) :=
             h_kappa h ! nat (idx (h_current h) (eps_target rs h) (h_N h)) + 0.05]
      else h_kappa h)"
  by (simp add: EpsGreedyBranch_def Let_def eps_fires_def eps_target_def)

lemma step_body_prm: "h_prm (fst (step_body rs h p dt)) = h_prm h"
  by (simp add: step_body_state JumpBranch_fields EpsGreedyBranch_fields pre_branch_fields)

lemma step_body_N: "h_N (fst (step_body rs h p dt)) = h_N h"
  by (simp add: step_body_state JumpBranch_fields EpsGreedyBranch_fields pre_branch_fields)


lemma UpdateKappa_floor: "x \<in> set (UpdateKappa prm p dt kappa j) \<Longrightarrow> kappa_min prm \<le> x"
  by (auto simp: UpdateKappa_def Let_def)

lemma UpdateHeat_nonneg: "0 \<le> UpdateHeat prm p dt J E"
  by (simp add: UpdateHeat_def Let_def)

lemma list_update_ge:
  assumes "\<forall>x\<in>set xs. m \<le> x" and "i < length xs \<Longrightarrow> m \<le> v"
  shows "\<forall>x\<in>set (xs [i := v]). (m::real) \<le> x"
proof (cases "i < length xs")
  case True
  then have "m \<le> v" by (rule assms(2))
  then show ?thesis
    using assms(1) set_update_subset_insert [of xs i v] by auto
next
  case False
  then have "xs [i := v] = xs" by (simp add: list_update_beyond)
  then show ?thesis using assms(1) by simp
qed

lemma list_update_add_ge:
  assumes "\<forall>x\<in>set xs. m \<le> x" and "0 \<le> d"
  shows "\<forall>x\<in>set (xs [i := xs ! i + d]). (m::real) \<le> x"
  using assms(1)
proof (rule list_update_ge)
  assume "i < length xs"
  then have "m \<le> xs ! i" using assms(1) by simp
  then show "m \<le> xs ! i + d" using assms(2) by simp
qed

lemma relax_fold_floor:
  "\<forall>x\<in>set ks. m \<le> x \<Longrightarrow>
   \<forall>x\<in>set (foldl (\<lambda>ks pos. ks [pos := max (ks ! pos - e) m]) ks ps). (m::real) \<le> x"
proof (induction ps arbitrary: ks)
  case Nil
  then show ?case by simp
next
  case (Cons a ps)
  have "\<forall>x\<in>set (ks [a := max (ks ! a - e) m]). m \<le> x"
    using Cons.prems by (rule list_update_ge) simp
  then have "\<forall>x\<in>set (foldl (\<lambda>ks pos. ks [pos := max (ks ! pos - e) m])
      (ks [a := max (ks ! a - e) m]) ps). m \<le> x"
    by (rule Cons.IH)
  then show ?case by (simp only: foldl_Cons)
qed

lemma RelaxTop_floor:
  "\<forall>x\<in>set kappa. kappa_min prm \<le> x \<Longrightarrow> \<forall>x\<in>set (RelaxTop prm n j kappa). kappa_min prm \<le> x"
  unfolding RelaxTop_def by (rule relax_fold_floor)

lemma JumpBranch_floor:
  assumes "\<forall>x\<in>set (h_kappa h). kappa_min (h_prm h) \<le> x" and "0 \<le> delta_kappa (h_prm h)"
  shows "\<forall>x\<in>set (h_kappa (fst (JumpBranch rs h j))). kappa_min (h_prm h) \<le> x"
  unfolding JumpBranch_fields
  by (rule RelaxTop_floor, rule list_update_add_ge, rule assms(1), rule assms(2))


lemma EpsGreedyBranch_floor:
  assumes "\<forall>x\<in>set (h_kappa h). m \<le> x"
  shows "\<forall>x\<in>set (h_kappa (fst (EpsGreedyBranch rs h km))). m \<le> x"
proof -
  have "\<forall>x\<in>set ((h_kappa h) [i := h_kappa h ! i + 0.05]). m \<le> x" for i
    using assms by (rule list_update_add_ge) simp
  note upd = this
  show ?thesis
  proof (cases "eps_fires rs h km \<and> eps_target rs h \<noteq> h_current h")
    case True
    then have "h_kappa (fst (EpsGreedyBranch rs h km)) =
        (h_kappa h) [nat (idx (h_current h) (eps_target rs h) (h_N h)) :=
           h_kappa h ! nat (idx (h_current h) (eps_target rs h) (h_N h)) + 0.05]"
      unfolding EpsGreedyBranch_kappa by (rule if_P)
    then show ?thesis by (simp only:) (rule upd)
  next
    case False
    then have "h_kappa (fst (EpsGreedyBranch rs h km)) = h_kappa h"
      unfolding EpsGreedyBranch_kappa by (rule if_not_P)
    then show ?thesis by (simp only:) (rule assms)
  qed
qed

section \<open>Shared facts\<close>

lemma uniform01_const_rng: "0 \<le> u \<Longrightarrow> u < 1 \<Longrightarrow> uniform01 (const_rng u z)"
  by (simp add: uniform01_def const_rng_def)

lemma const_rng_fields:
  "rs_uniform (const_rng u z) r = (u, r)" "rs_normal (const_rng u z) r = (z, r)"
  "rs_seed (const_rng u z) s = ()"
  by (simp_all add: const_rng_def)

lemma ssd_step_Some:
  "ssd_step rs (Some h) p dt out =
     (Some (fst (step_body rs h p dt)), map_option (\<lambda>_. snd (step_body rs h p dt)) out)"
  by (cases out) (simp_all add: ssd_step_def Let_def)

lemma ssd_create_fresh:
  "0 < n \<Longrightarrow> n * n < 2 ^ 31 \<Longrightarrow> ssd_create rs n (Some q) seed
     = Some (fresh n q (rs_seed rs (if seed = 0 then 123456789 else seed)))"
  "0 < n \<Longrightarrow> n * n < 2 ^ 31 \<Longrightarrow> ssd_create rs n None seed
     = Some (fresh n default_params (rs_seed rs (if seed = 0 then 123456789 else seed)))"
  by (simp_all add: ssd_create_def fresh_def Let_def)

lemma fresh_rng_update:
  "(fresh n q r)\<lparr>h_kappa := ks, h_rng := r\<rparr> = (fresh n q r)\<lparr>h_kappa := ks\<rparr>"
  by (simp add: fresh_def)

lemma fresh_fields:
  "h_N (fresh n q r) = n" "h_current (fresh n q r) = 0"
  "h_kappa (fresh n q r) = replicate (nat (n * n)) 0"
  "h_w (fresh n q r) = replicate (nat (n * n)) 0"
  "h_E (fresh n q r) = 0" "h_F (fresh n q r) = 0" "h_T (fresh n q r) = T0 q"
  "h_pi (fresh n q r) = replicate (nat n) (1 / real_of_int (max 1 n))"
  "h_prm (fresh n q r) = q" "h_rng (fresh n q r) = r"
  by (simp_all add: fresh_def)

lemma did_jump_iff:
  "out_did_jump (snd (step_body rs h p dt)) = 1 \<longleftrightarrow> takes_jump rs h p dt"
  by (simp add: step_body_did_jump)

lemma step_body_jump_pi:
  assumes "takes_jump rs h p dt"
  shows "h_pi (fst (step_body rs h p dt)) =
           softmax_temp (fst (jump_logits rs (pre_branch rs h p dt))) (h_T (pre_branch rs h p dt))"
  using assms by (simp add: step_body_state JumpBranch_fields)

lemma length_build_logits: "length (fst (build_logits rs prm kappa cur n ks r)) = length ks"
  by (induction ks arbitrary: r) (simp_all add: Let_def)

lemma length_jump_logits: "length (fst (jump_logits rs h)) = nat (h_N h)"
  by (simp add: jump_logits_def length_build_logits)

lemma exp_m1_upper: "exp (- 1) < (3 / 4 :: real)"
proof -
  have "(2::real) \<le> exp 1" using exp_ge_add_one_self [of "1::real"] by simp
  moreover have "0 < exp (1::real)" by simp
  ultimately have "1 / exp 1 < (3 / 4 :: real)" by (simp add: field_simps)
  then show ?thesis by (simp only: exp_minus' [of "1::real"])
qed

lemma exp_m1_lower: "(1 / 3 :: real) \<le> exp (- 1)"
proof -
  have "0 < exp (1::real)" by simp
  then have "1 / 3 \<le> 1 / exp (1::real)" using exp_le by (simp add: field_simps)
  then show ?thesis by (simp only: exp_minus' [of "1::real"])
qed

lemma softmax_self_loop_weight: "(1 / 4 :: real) \<le> exp (- 1) / (exp (- 1) + 1)"
proof -
  have "0 < exp (- 1 :: real) + 1" by (simp add: add_pos_pos)
  then show ?thesis using exp_m1_lower by (simp add: field_simps)
qed

lemma softmax_two: "softmax_temp [- 1, 0] 1 = [exp (- 1) / (exp (- 1) + 1), 1 / (exp (- 1) + 1)]"
proof -
  have "0 < exp (- 1 :: real) + 1" by (simp add: add_pos_pos)
  then show ?thesis
    by (simp add: softmax_temp_def max_element_def Let_def not_le)
qed

lemma warm_params_fields:
  "G0 warm_params = 1 / 2" "g warm_params = 7 / 10" "eps_noise warm_params = 0"
  "eta warm_params = 3 / 10" "rho warm_params = 3 / 10" "lam warm_params = 1 / 50"
  "kappa_min warm_params = 0" "alpha warm_params = 3 / 5" "beta_E warm_params = 3 / 20"
  "Theta0 warm_params = 0" "a1 warm_params = 0" "a2 warm_params = 2 / 5" "h0 warm_params = 1"
  "gamma warm_params = 4 / 5" "T0 warm_params = 1" "c1 warm_params = 1 / 2" "c2 warm_params = 0"
  "sigma warm_params = 0" "delta_w warm_params = 1 / 5" "delta_kappa warm_params = 1 / 5"
  "c0_cool warm_params = 3 / 5" "q_relax warm_params = 1 / 10" "eps_relax warm_params = 1 / 100"
  by (simp_all add: warm_params_def default_params_def)

lemma replicate_two: "replicate 2 x = [x, x]"
  by (simp add: numeral_2_eq_2)

lemma four: "(4::nat) = Suc (Suc (Suc (Suc 0)))"
  by simp

lemma warm_flow: "flow_of (const_rng (1 / 4) 0) (fresh 2 warm_params ()) 0 = [0, 0, 0, 0]"
  by (simp add: flow_of_def fresh_fields warm_params_fields Let_def four)

lemma warm_kappa: "UpdateKappa warm_params 0 1 (replicate 4 0) [0, 0, 0, 0] = [0, 0, 0, 0]"
  by (simp add: UpdateKappa_def warm_params_fields Let_def four)

lemma warm_heat: "heat_of (const_rng (1 / 4) 0) (fresh 2 warm_params ()) 0 1 = 0"
  by (simp add: heat_of_def warm_flow UpdateHeat_def J_norm_of_def fresh_fields
      warm_params_fields Let_def)

lemma warm_hrate: "hrate_of (const_rng (1 / 4) 0) (fresh 2 warm_params ()) 0 1 = 1"
  by (simp add: hrate_of_def warm_heat Theta_of_def kappa_mean_of_def warm_flow warm_kappa
      fresh_fields warm_params_fields)

lemma warm_jump: "takes_jump (const_rng (1 / 4) 0) (fresh 2 warm_params ()) 0 1"
  using exp_m1_upper
  by (simp add: takes_jump_def jump_draw_def const_rng_fields warm_hrate)

lemma warm_pre_fields:
  "h_T (pre_branch (const_rng (1 / 4) 0) (fresh 2 warm_params ()) 0 1) = 1"
  "h_kappa (pre_branch (const_rng (1 / 4) 0) (fresh 2 warm_params ()) 0 1) = [0, 0, 0, 0]"
  "h_rng (pre_branch (const_rng (1 / 4) 0) (fresh 2 warm_params ()) 0 1) = ()"
  by (simp_all add: pre_branch_def warm_heat warm_flow warm_kappa fresh_fields warm_params_fields)

lemma warm_logits:
  "jump_logits (const_rng (1 / 4) 0) (pre_branch (const_rng (1 / 4) 0) (fresh 2 warm_params ()) 0 1)
     = ([- 1, 0], ())"
  by (simp add: jump_logits_def pre_branch_fields(1,2,3) warm_pre_fields fresh_fields warm_params_fields
      const_rng_fields idx_def Let_def upto_rec1)


lemma length_AlignFlow: "length (fst (AlignFlow rs prm p ks r)) = length ks"
  by (induction ks arbitrary: r) (simp_all add: Let_def)

lemma EpsGreedyBranch_current:
  "h_current (fst (EpsGreedyBranch rs h km)) =
     best_from (h_kappa (fst (EpsGreedyBranch rs h km))) (h_current h) (h_N h) [0..h_N h - 1]
       (h_current h) (- (10 ^ 300))"
  by (simp add: EpsGreedyBranch_def Let_def)

lemma sample_cdf_range:
  "sample_cdf r xs cdf k fb = fb \<or> (k \<le> sample_cdf r xs cdf k fb \<and>
     sample_cdf r xs cdf k fb < k + int (length xs))"
proof (induction xs arbitrary: cdf k)
  case Nil
  then show ?case by simp
next
  case (Cons x xs)
  show ?case
    using Cons.IH [of "cdf + x" "k + 1"] by auto
qed

lemma jump_selected_range:
  assumes "0 < h_N h"
  shows "0 \<le> jump_selected rs h \<and> jump_selected rs h < h_N h"
proof -
  have "length (softmax_temp (fst (jump_logits rs h)) (h_T h)) = nat (h_N h)"
    by (simp add: length_softmax_temp length_jump_logits)
  then show ?thesis
    using assms sample_cdf_range [of "fst (rs_uniform rs (snd (jump_logits rs h)))"
        "softmax_temp (fst (jump_logits rs h)) (h_T h)" 0 0 "h_N h - 1"]
    unfolding jump_selected_def by auto
qed

section \<open>Well-formed handles\<close>

text \<open>
  \<^verbatim>\<open>ssd_create\<close> builds a well-formed handle and a step keeps it well-formed; in a
  well-formed handle every index \<^verbatim>\<open>idx(current, k, N)\<close> with \<open>k\<close> in \<open>[0,N)\<close> is within the
  vectors, so the model reads and writes where the C++ code does.
\<close>

lemma idx_in_range:
  assumes "0 \<le> i" and "i < n" and "0 \<le> k" and "k < n"
  shows "0 \<le> idx i k n \<and> idx i k n < n * n"
proof -
  have "i * n + k < (i + 1) * n" using assms(4) by (simp add: algebra_simps)
  also have "\<dots> \<le> n * n" using assms(1,2) by (intro mult_right_mono) simp_all
  finally have "idx i k n < n * n" by (simp add: idx_def)
  moreover have "0 \<le> idx i k n" using assms by (simp add: idx_def)
  ultimately show ?thesis by simp
qed

lemma length_UpdateKappa:
  "length j = length kappa \<Longrightarrow> length (UpdateKappa prm p dt kappa j) = length kappa"
  by (simp add: UpdateKappa_def)

lemma length_relax_fold:
  "length (foldl (\<lambda>ks pos. ks [pos := f ks pos]) ks ps) = length ks"
  by (induction ps arbitrary: ks) simp_all

lemma length_RelaxTop: "length (RelaxTop prm n j kappa) = length kappa"
  unfolding RelaxTop_def by (rule length_relax_fold)

lemma best_from_mem: "best_from kappa cur n ks b bv \<in> insert b (set ks)"
  by (induction ks arbitrary: b bv) (auto simp: Let_def)

lemma wf_handle_create:
  assumes "0 < n" and "n * n < 2 ^ 31"
  shows "\<exists>h. ssd_create rs n params seed = Some h \<and> wf_handle h"
  using assms by (simp add: ssd_create_def Let_def wf_handle_def)

lemma wf_handle_fresh: "0 < n \<Longrightarrow> n * n < 2 ^ 31 \<Longrightarrow> wf_handle (fresh n q r)"
  by (simp add: wf_handle_def fresh_fields)

lemma tame_warm_params: "tame_params warm_params"
  by (simp add: tame_params_def in_range_def warm_params_def default_params_def)

lemma step_defined_warm: "step_defined (const_rng (1 / 4) 0) (fresh 2 warm_params ()) 0 1"
  by (simp add: step_defined_def wf_handle_fresh uniform01_const_rng const_rng_fields
      tame_warm_params fresh_fields in_range_def warm_params_fields four replicate_two)

lemma wf_handle_pre_branch:
  assumes "wf_handle h"
  shows "wf_handle (pre_branch rs h p dt)"
proof -
  have "length (flow_of rs h p) = length (h_kappa h)"
    by (simp add: flow_of_def length_AlignFlow)
  then show ?thesis
    using assms by (simp add: wf_handle_def pre_branch_fields length_UpdateKappa)
qed

lemma wf_handle_JumpBranch:
  assumes "wf_handle h"
  shows "wf_handle (fst (JumpBranch rs h j))"
proof -
  have "0 < h_N h" using assms by (simp add: wf_handle_def)
  then have "0 \<le> jump_selected rs h \<and> jump_selected rs h < h_N h"
    by (rule jump_selected_range)
  moreover have "length (h_w (fst (JumpBranch rs h j))) = length (h_w h)"
    by (simp add: JumpBranch_def Let_def)
  ultimately show ?thesis
    using assms
    by (simp add: wf_handle_def JumpBranch_fields length_RelaxTop length_softmax_temp
        length_jump_logits)
qed

lemma wf_handle_EpsGreedyBranch:
  assumes "wf_handle h"
  shows "wf_handle (fst (EpsGreedyBranch rs h km))"
proof -
  let ?h' = "fst (EpsGreedyBranch rs h km)"
  have n: "0 < h_N h" and c: "0 \<le> h_current h" "h_current h < h_N h"
    using assms by (simp_all add: wf_handle_def)
  have "h_current ?h' \<in> insert (h_current h) (set [0..h_N h - 1])"
    unfolding EpsGreedyBranch_current by (rule best_from_mem)
  then have cur: "0 \<le> h_current ?h' \<and> h_current ?h' < h_N h"
    using c by auto
  have k: "length (h_kappa ?h') = length (h_kappa h)"
    unfolding EpsGreedyBranch_kappa by simp
  have w: "length (h_w ?h') = length (h_w h)"
    by (simp add: EpsGreedyBranch_def Let_def)
  show ?thesis
    using assms cur k w by (simp add: wf_handle_def EpsGreedyBranch_fields)
qed

lemma wf_handle_step:
  assumes "wf_handle h" and "ssd_step rs (Some h) p dt out = (Some h', out')"
  shows "wf_handle h'"
proof -
  have h': "h' = fst (step_body rs h p dt)"
    using assms(2) by (simp add: ssd_step_Some)
  have "wf_handle (pre_branch rs h p dt)"
    using assms(1) by (rule wf_handle_pre_branch)
  then show ?thesis
    unfolding h' step_body_state
    by (simp add: wf_handle_JumpBranch wf_handle_EpsGreedyBranch)
qed

section \<open>Magnitudes of a step within range\<close>

text \<open>
  Within range the flow is at most \<open>3e90\<close> in magnitude, the inertia after phase 2 at most
  \<open>1e271\<close> and the heat after phase 3 at most \<open>1e91\<close>, so the doubles that hold them are
  finite. The jump rate of phase 4 is an exponential and can still exceed the largest double;
  it reaches the handle only through the outcome of the jump test, and the theorems that
  assume \<open>step_defined\<close> state what holds on either branch (C1) or of the branch that the
  step reports (C7).
\<close>

lemma abs_mult_le:
  fixes a b :: real
  assumes "\<bar>a\<bar> \<le> A" and "\<bar>b\<bar> \<le> C"
  shows "\<bar>a * b\<bar> \<le> A * C"
proof -
  have "0 \<le> A" using assms(1) by simp
  then have "\<bar>a\<bar> * \<bar>b\<bar> \<le> A * C"
    using assms by (intro mult_mono) simp_all
  then show ?thesis by (simp add: abs_mult)
qed

lemma abs_add_le:
  fixes a b :: real
  assumes "\<bar>a\<bar> \<le> A" and "\<bar>b\<bar> \<le> C"
  shows "\<bar>a + b\<bar> \<le> A + C" and "\<bar>a - b\<bar> \<le> A + C"
  using assms by simp_all

lemma abs_max_le:
  fixes a b :: real
  shows "\<bar>a\<bar> \<le> A \<Longrightarrow> \<bar>b\<bar> \<le> A \<Longrightarrow> \<bar>max a b\<bar> \<le> A"
  by (simp add: max_def)

lemma flow_entry_magnitude:
  fixes G :: real
  assumes "in_range G" and "in_range gg" and "in_range k" and "in_range p"
    and "in_range e" and "in_range z"
  shows "\<bar>(G + gg * k) * p\<bar> \<le> 3 * 10 ^ 90" and "\<bar>(G + gg * k) * p + e * z\<bar> \<le> 3 * 10 ^ 90"
proof -
  have a: "\<bar>(G + gg * k) * p\<bar> \<le> (10 ^ 30 + 10 ^ 30 * 10 ^ 30) * 10 ^ 30"
    using assms(1-4) unfolding in_range_def by (intro abs_mult_le abs_add_le)
  then show "\<bar>(G + gg * k) * p\<bar> \<le> 3 * 10 ^ 90" by simp
  have ez: "\<bar>e * z\<bar> \<le> 10 ^ 30 * 10 ^ 30"
    using assms(5,6) unfolding in_range_def by (rule abs_mult_le)
  have "\<bar>(G + gg * k) * p + e * z\<bar>
          \<le> (10 ^ 30 + 10 ^ 30 * 10 ^ 30) * 10 ^ 30 + 10 ^ 30 * 10 ^ 30"
    using a ez by (rule abs_add_le)
  then show "\<bar>(G + gg * k) * p + e * z\<bar> \<le> 3 * 10 ^ 90" by simp
qed

lemma flow_magnitude:
  assumes "in_range (G0 prm)" and "in_range (g prm)" and "in_range (eps_noise prm)"
    and "in_range p" and "\<And>r. in_range (fst (rs_normal rs r))" and "list_all in_range ks"
  shows "\<forall>x\<in>set (fst (AlignFlow rs prm p ks r)). \<bar>x\<bar> \<le> 3 * 10 ^ 90"
  using assms(6)
proof (induction ks arbitrary: r)
  case Nil
  show ?case by simp
next
  case (Cons k ks)
  have k: "in_range k" and ks: "list_all in_range ks" using Cons.prems by simp_all
  note b = flow_entry_magnitude [OF assms(1,2) k assms(4) assms(3) assms(5)]
  show ?case
    using b Cons.IH [OF ks] by (simp add: Let_def)
qed

lemma kappa_entry_magnitude:
  fixes k :: real
  assumes "in_range p" and "in_range dt" and "in_range r" and "in_range e" and "in_range l"
    and "in_range m" and "in_range k" and "\<bar>ji\<bar> \<le> 3 * 10 ^ 90"
  shows "\<bar>max (k + (e * (p * ji - r * ji * ji) - l * (k - m)) * dt) m\<bar> \<le> 10 ^ 271"
proof -
  have "\<bar>k + (e * (p * ji - r * ji * ji) - l * (k - m)) * dt\<bar>
          \<le> 10 ^ 30 + (10 ^ 30 * (10 ^ 30 * (3 * 10 ^ 90) + 10 ^ 30 * (3 * 10 ^ 90) * (3 * 10 ^ 90))
                + 10 ^ 30 * (10 ^ 30 + 10 ^ 30)) * 10 ^ 30"
    using assms unfolding in_range_def by (intro abs_mult_le abs_add_le)
  then have "\<bar>k + (e * (p * ji - r * ji * ji) - l * (k - m)) * dt\<bar> \<le> 10 ^ 271" by simp
  moreover have "\<bar>m\<bar> \<le> 10 ^ 271"
    using assms(6) unfolding in_range_def by (rule order_trans) simp
  ultimately show ?thesis by (rule abs_max_le)
qed

lemma UpdateKappa_magnitude:
  assumes "in_range p" and "in_range dt" and "in_range (rho prm)" and "in_range (eta prm)"
    and "in_range (lam prm)" and "in_range (kappa_min prm)"
    and "list_all in_range kappa" and "\<forall>x\<in>set j. \<bar>x\<bar> \<le> 3 * 10 ^ 90"
  shows "\<forall>x\<in>set (UpdateKappa prm p dt kappa j). \<bar>x\<bar> \<le> 10 ^ 271"
proof
  fix x assume "x \<in> set (UpdateKappa prm p dt kappa j)"
  then obtain k ji where z: "(k, ji) \<in> set (zip kappa j)"
    and x: "x = max (k + (eta prm * (p * ji - rho prm * ji * ji) - lam prm * (k - kappa_min prm)) * dt)
                  (kappa_min prm)"
    by (auto simp: UpdateKappa_def Let_def)
  have k: "in_range k" using z assms(7) by (auto simp: list_all_iff dest: set_zip_leftD)
  have ji: "\<bar>ji\<bar> \<le> 3 * 10 ^ 90" using z assms(8) by (auto dest: set_zip_rightD)
  show "\<bar>x\<bar> \<le> 10 ^ 271"
    unfolding x by (rule kappa_entry_magnitude [OF assms(1,2,3,4,5,6) k ji])
qed

lemma UpdateHeat_magnitude:
  assumes "in_range p" and "in_range dt" and "in_range (alpha prm)" and "in_range (beta_E prm)"
    and "in_range E" and "0 \<le> J"
  shows "\<bar>UpdateHeat prm p dt J E\<bar> \<le> 10 ^ 91"
proof -
  have x: "\<bar>max (\<bar>p\<bar> - J) 0\<bar> \<le> 10 ^ 30"
    using assms(1,6) unfolding in_range_def by (simp add: max_def)
  have "\<bar>E + (alpha prm * max (\<bar>p\<bar> - J) 0 - beta_E prm * E) * dt\<bar>
          \<le> 10 ^ 30 + (10 ^ 30 * 10 ^ 30 + 10 ^ 30 * 10 ^ 30) * 10 ^ 30"
    using assms(2,3,4,5) x unfolding in_range_def by (intro abs_mult_le abs_add_le)
  then have "\<bar>E + (alpha prm * max (\<bar>p\<bar> - J) 0 - beta_E prm * E) * dt\<bar> \<le> 10 ^ 91" by simp
  then show ?thesis
    unfolding UpdateHeat_def Let_def by (rule abs_max_le) simp
qed

lemma J_norm_of_nonneg: "0 \<le> J_norm_of j"
proof -
  have "0 \<le> a \<Longrightarrow> 0 \<le> foldl (\<lambda>s v. s + v * v) a j" for a :: real
    by (induction j arbitrary: a) simp_all
  then show ?thesis by (simp add: J_norm_of_def)
qed

lemma step_defined_magnitudes:
  assumes "step_defined rs h p dt"
  shows "\<forall>x\<in>set (flow_of rs h p). \<bar>x\<bar> \<le> 3 * 10 ^ 90"
    and "\<forall>x\<in>set (h_kappa (pre_branch rs h p dt)). \<bar>x\<bar> \<le> 10 ^ 271"
    and "\<bar>h_E (pre_branch rs h p dt)\<bar> \<le> 10 ^ 91"
proof -
  have t: "tame_params (h_prm h)" and p: "in_range p" and dt: "in_range dt"
    and n: "\<And>r. in_range (fst (rs_normal rs r))"
    and k: "list_all in_range (h_kappa h)" and e: "in_range (h_E h)"
    using assms by (simp_all add: step_defined_def)
  show f: "\<forall>x\<in>set (flow_of rs h p). \<bar>x\<bar> \<le> 3 * 10 ^ 90"
    unfolding flow_of_def using t p n k
    by (intro flow_magnitude) (simp_all add: tame_params_def)
  show "\<forall>x\<in>set (h_kappa (pre_branch rs h p dt)). \<bar>x\<bar> \<le> 10 ^ 271"
    unfolding pre_branch_fields using t p dt k f
    by (intro UpdateKappa_magnitude) (simp_all add: tame_params_def)
  show "\<bar>h_E (pre_branch rs h p dt)\<bar> \<le> 10 ^ 91"
    unfolding pre_branch_fields heat_of_def using t p dt e J_norm_of_nonneg
    by (intro UpdateHeat_magnitude) (simp_all add: tame_params_def)
qed

section \<open>The null handle (C9)\<close>

text \<open>
  C9, as the code has it: \<^verbatim>\<open>ssd_step\<close> with a null handle returns at its first
  statement. No simulation state exists or changes, and the caller's telemetry struct is
  left exactly as it was passed in; nothing is written to it.
\<close>

theorem null_handle_noop: "ssd_step rs None p dt out = (None, out)"
  by (simp add: ssd_step_def)

text \<open>
  C9 as stated fails: a struct whose \<open>E\<close> field holds 1 before the call still holds 1 after
  it, so not every field is zero.
\<close>

theorem null_handle_not_zeroed:
  "snd (ssd_step (const_rng 0 0) None 1 1 (Some (zero_telemetry\<lparr>out_E := 1\<rparr>)))
     = Some (zero_telemetry\<lparr>out_E := 1\<rparr>)
   \<and> out_E (zero_telemetry\<lparr>out_E := 1\<rparr>) \<noteq> 0"
  by (simp add: ssd_step_def)

section \<open>No jump at \<open>dt = 0\<close> (C3)\<close>

lemma step_body_dt0_no_jump:
  assumes "uniform01 rs"
  shows "out_did_jump (snd (step_body rs h p 0)) = 0"
proof -
  have "\<not> fst (rs_uniform rs r) < 0" for r
    using assms by (simp add: uniform01_def not_less)
  then show ?thesis
    by (simp add: step_body_def Let_def)
qed

text \<open>
  C3: for every handle, every parameter set and every drive, a step with \<open>dt = 0\<close> emits
  \<open>did_jump = 0\<close>, given that the generator's uniform draws lie in [0,1): the jump
  probability is \<open>1 - exp 0 = 0\<close> and no draw is below it.
\<close>

theorem dt0_never_jumps:
  "uniform01 rs \<Longrightarrow>
   map_option out_did_jump (snd (ssd_step rs (Some h) p 0 (Some buf))) = Some 0"
  by (simp add: ssd_step_def Let_def step_body_dt0_no_jump)

text \<open>
  Witness of C3: a fresh two-node handle with the default parameters, drive 1, and a
  generator whose draws are 1/4.
\<close>

theorem dt0_never_jumps_witness:
  "uniform01 (const_rng (1 / 4) 0) \<and>
   map_option out_did_jump
     (snd (ssd_step (const_rng (1 / 4) 0) (ssd_create (const_rng (1 / 4) 0) 2 None 1) 1 0
        (Some zero_telemetry))) = Some 0"
proof -
  have u: "uniform01 (const_rng (1 / 4) 0)"
    by (simp add: uniform01_const_rng)
  obtain h where c: "ssd_create (const_rng (1 / 4) 0) 2 None 1 = Some h"
    by (simp add: ssd_create_def)
  show ?thesis
    unfolding c using u dt0_never_jumps [OF u, of h 1 zero_telemetry] by simp
qed

section \<open>Zero-temperature collapse (C6)\<close>

lemma argmax_from_first_max:
  "first_max logits a arg \<Longrightarrow> a \<le> n \<Longrightarrow> first_max logits n (argmax_from logits arg [a..<n])"
proof (induction "n - a" arbitrary: a arg)
  case 0
  then show ?case by simp
next
  case (Suc d)
  then have lt: "a < n" by simp
  have step: "first_max logits (Suc a) (if logits ! a > logits ! arg then a else arg)"
    using Suc.prems(1) unfolding first_max_def
    by (auto simp: less_Suc_eq intro: less_imp_le order_trans le_less_trans)
  have "d = n - Suc a" using Suc.hyps(2) by simp
  from Suc.hyps(1) [OF this step] lt
  show ?case by (simp add: upt_conv_Cons)
qed

text \<open>
  C6: with a temperature of at most \<open>1e-8\<close> the softmax of a non-empty logit vector is
  exactly one-hot: 1 at the first index of the largest logit, 0 everywhere else. (Inside
  \<^verbatim>\<open>ssd_step\<close> the temperature is clamped to at least \<open>1e-6\<close> before the softmax is
  called, so the step itself never enters this branch.)
\<close>

theorem zero_temperature_one_hot:
  assumes "logits \<noteq> []" and "T \<le> 1 / 10 ^ 8"
  shows "\<exists>arg. first_max logits (length logits) arg \<and>
           softmax_temp logits T = (replicate (length logits) 0) [arg := 1]"
proof -
  have "first_max logits (Suc 0) 0" by (simp add: first_max_def)
  moreover have "Suc 0 \<le> length logits" using assms(1) by (cases logits) simp_all
  ultimately have "first_max logits (length logits) (argmax_from logits 0 [Suc 0..<length logits])"
    by (rule argmax_from_first_max)
  then show ?thesis using assms by (auto simp: softmax_temp_def Let_def)
qed

text \<open>
  Witness of C6: the logits 1, 3, 3 at temperature 0 give the vector 0, 1, 0.
\<close>

theorem zero_temperature_one_hot_witness:
  "[1, 3, 3] \<noteq> ([] :: real list) \<and> (0::real) \<le> 1 / 10 ^ 8 \<and>
   softmax_temp [1, 3, 3] 0 = [0, 1, 0]"
proof -
  have a: "[1, 3, 3] \<noteq> ([] :: real list)" and b: "(0::real) \<le> 1 / 10 ^ 8"
    by simp_all
  from zero_temperature_one_hot [OF a b]
  obtain arg where "softmax_temp [1, 3, 3] 0 = (replicate (length [1, 3, 3 :: real]) 0) [arg := 1]"
    and "first_max [1, 3, 3] (length [1, 3, 3 :: real]) arg"
    by blast
  moreover have "softmax_temp [1, 3, 3] 0 = [0, 1, 0]"
    by (simp add: softmax_temp_def Let_def upt_conv_Cons)
  ultimately show ?thesis by simp
qed

section \<open>The three-node scenario (C8)\<close>

lemma AlignFlow_no_noise:
  "\<not> eps_noise prm > 0 \<Longrightarrow>
   AlignFlow rs prm p ks r = (map (\<lambda>k. (G0 prm + g prm * k) * p) ks, r)"
  by (induction ks) (simp_all add: Let_def)

lemma sqrt_9_4: "sqrt (9 / 4) = 3 / 2"
  by (rule real_sqrt_unique) (simp_all add: power2_eq_square)

lemma nine: "(9::nat) = Suc (Suc (Suc (Suc (Suc (Suc (Suc (Suc (Suc 0))))))))"
  by simp

text \<open>
  C8: a fresh three-node handle (all inertia 0) with \<open>G0 = 0.5\<close>, \<open>g = 0\<close>, \<open>eta = 0.3\<close>,
  \<open>rho = 0\<close>, \<open>lam = 0\<close>, \<open>kappa_min = 0\<close>, \<open>eps_noise = 0\<close> and any other parameters, any seed
  and any generator, stepped once with drive 1 and \<open>dt = 1\<close>. Phase 1 computes a flow of 0.5 on
  all nine edges, the flow norm is 1.5, and phase 2 writes 0.15 into every inertia entry: the
  call goes on from phase 3 with exactly that handle, flow and norm (\<open>after_phase2\<close>), and the
  telemetry it writes reports \<open>J_norm = 1.5\<close> and \<open>kappa_mean = 0.15\<close>, the mean that phase 4
  takes over the inertia matrix before the branch touches it.
\<close>

theorem scenario_phase_1_2:
  "\<exists>h. ssd_create rs 3 (Some (scenario_params q)) seed = Some h
     \<and> h_kappa h = replicate 9 0
     \<and> fst (AlignFlow rs (h_prm h) 1 (h_kappa h) (h_rng h)) = replicate 9 0.5
     \<and> J_norm_of (fst (AlignFlow rs (h_prm h) 1 (h_kappa h) (h_rng h))) = 1.5
     \<and> UpdateKappa (h_prm h) 1 1 (h_kappa h) (fst (AlignFlow rs (h_prm h) 1 (h_kappa h) (h_rng h)))
         = replicate 9 0.15
     \<and> step_body rs h 1 1
         = after_phase2 rs (h\<lparr>h_kappa := replicate 9 0.15\<rparr>) (replicate 9 0.5) 1.5 1 1
     \<and> map_option out_J_norm (snd (ssd_step rs (Some h) 1 1 (Some buf))) = Some 1.5
     \<and> map_option out_kappa_mean (snd (ssd_step rs (Some h) 1 1 (Some buf))) = Some 0.15"
proof -
  let ?prm = "scenario_params q"
  let ?h = "fresh 3 ?prm (rs_seed rs (if seed = 0 then 123456789 else seed))"
  have c: "ssd_create rs 3 (Some ?prm) seed = Some ?h"
    by (simp add: ssd_create_fresh)
  have n: "\<not> eps_noise ?prm > 0" by (simp add: scenario_params_def)
  have a: "AlignFlow rs ?prm 1 (replicate 9 0) r = (replicate 9 (1 / 2), r)" for r
    unfolding AlignFlow_no_noise [OF n] by (simp add: scenario_params_def)
  have jn: "J_norm_of (replicate 9 (1 / 2)) = 3 / 2"
    using sqrt_9_4 by (simp add: J_norm_of_def nine)
  have k: "UpdateKappa ?prm 1 1 (replicate 9 0) (replicate 9 (1 / 2)) = replicate 9 (3 / 20)"
    by (simp add: UpdateKappa_def scenario_params_def nine)
  have s: "step_body rs ?h 1 1
             = after_phase2 rs (?h\<lparr>h_kappa := replicate 9 (3 / 20)\<rparr>) (replicate 9 (1 / 2)) (3 / 2) 1 1"
    unfolding step_body_after_phase2 by (simp add: fresh_fields a jn k fresh_rng_update)
  have f: "flow_of rs ?h 1 = replicate 9 (1 / 2)"
    by (simp add: flow_of_def fresh_fields a)
  have "kappa_mean_of rs ?h 1 1
          = foldl (+) 0 (UpdateKappa ?prm 1 1 (replicate 9 0) (replicate 9 (1 / 2))) / 9"
    by (simp add: kappa_mean_of_def f fresh_fields)
  then have m: "kappa_mean_of rs ?h 1 1 = 3 / 20"
    unfolding k by (simp add: nine)
  have t: "map_option out_J_norm (snd (ssd_step rs (Some ?h) 1 1 (Some buf))) = Some (3 / 2)"
    "map_option out_kappa_mean (snd (ssd_step rs (Some ?h) 1 1 (Some buf))) = Some (3 / 20)"
    by (simp_all add: ssd_step_Some step_body_unfold Let_def f jn m)
  show ?thesis
    unfolding c
    by (intro exI [of _ ?h] conjI) (simp_all add: fresh_fields a jn k s t)
qed

section \<open>The floor on inertia and heat (C1)\<close>

text \<open>
  C1, as the code has it: for a step within range (\<open>step_defined\<close>) whose parameters have
  \<open>delta_kappa\<close> and \<open>c0_cool\<close> not negative, every inertia entry is at least \<open>kappa_min\<close> and
  the heat is at least 0 after the step, whichever branch it takes. Phase 2 floors every
  entry, the rewire and the nudge only add, the relaxation floors again, and cooling
  multiplies a non-negative heat by \<open>c0_cool\<close>. What the code leaves in the handle once a
  value has overflowed is outside this statement.
\<close>

theorem invariants_after_step:
  assumes "step_defined rs h p dt"
    and "0 \<le> delta_kappa (h_prm h)" and "0 \<le> c0_cool (h_prm h)"
    and "ssd_step rs (Some h) p dt out = (Some h', out')"
  shows "(\<forall>x\<in>set (h_kappa h'). kappa_min (h_prm h') \<le> x) \<and> 0 \<le> h_E h'"
proof -
  let ?b = "pre_branch rs h p dt"
  have h': "h' = fst (step_body rs h p dt)"
    using assms(4) by (simp add: ssd_step_Some)
  have prm: "h_prm h' = h_prm h" by (simp add: h' step_body_prm)
  have k: "\<forall>x\<in>set (h_kappa ?b). kappa_min (h_prm ?b) \<le> x"
    by (simp add: pre_branch_fields UpdateKappa_floor)
  have e: "0 \<le> h_E ?b" by (simp add: pre_branch_fields heat_of_def UpdateHeat_nonneg)
  show ?thesis
  proof (cases "takes_jump rs h p dt")
    case True
    then have s: "h' = fst (JumpBranch rs ?b (flow_of rs h p))"
      by (simp add: h' step_body_state)
    have "\<forall>x\<in>set (h_kappa (fst (JumpBranch rs ?b (flow_of rs h p)))). kappa_min (h_prm ?b) \<le> x"
      using k by (rule JumpBranch_floor) (simp add: pre_branch_fields assms(2))
    moreover have "0 \<le> h_E (fst (JumpBranch rs ?b (flow_of rs h p)))"
      using e assms(3) by (simp add: JumpBranch_fields pre_branch_fields)
    ultimately show ?thesis
      unfolding prm unfolding s by (simp only: pre_branch_fields)
  next
    case False
    then have s: "h' = fst (EpsGreedyBranch rs ?b (kappa_mean_of rs h p dt))"
      by (simp add: h' step_body_state)
    have "\<forall>x\<in>set (h_kappa (fst (EpsGreedyBranch rs ?b (kappa_mean_of rs h p dt)))).
            kappa_min (h_prm ?b) \<le> x"
      using k by (rule EpsGreedyBranch_floor)
    moreover have "0 \<le> h_E (fst (EpsGreedyBranch rs ?b (kappa_mean_of rs h p dt)))"
      using e by (simp add: EpsGreedyBranch_fields)
    ultimately show ?thesis
      unfolding prm unfolding s by (simp only: pre_branch_fields)
  qed
qed

text \<open>
  Witness of C1 as amended: a fresh two-node handle with \<open>warm_params\<close>
  (\<open>delta_kappa = 0.2\<close>, \<open>c0_cool = 0.6\<close>), drive 0, \<open>dt = 1\<close>, uniform draws 1/4. The step is
  within range and takes the jump branch, with its rewire, cooling and relaxation.
\<close>

theorem invariants_after_step_witness:
  "step_defined (const_rng (1 / 4) 0) (fresh 2 warm_params ()) 0 1 \<and>
   0 \<le> delta_kappa warm_params \<and> 0 \<le> c0_cool warm_params \<and>
   ssd_create (const_rng (1 / 4) 0) 2 (Some warm_params) 1 = Some (fresh 2 warm_params ()) \<and>
   out_did_jump (snd (step_body (const_rng (1 / 4) 0) (fresh 2 warm_params ()) 0 1)) = 1 \<and>
   list_all (\<lambda>x. kappa_min warm_params \<le> x)
     (h_kappa (fst (step_body (const_rng (1 / 4) 0) (fresh 2 warm_params ()) 0 1))) \<and>
   0 \<le> h_E (fst (step_body (const_rng (1 / 4) 0) (fresh 2 warm_params ()) 0 1))"
proof -
  let ?rs = "const_rng (1 / 4) 0" and ?h = "fresh 2 warm_params ()"
  have d: "step_defined ?rs ?h 0 1" by (rule step_defined_warm)
  have a: "0 \<le> delta_kappa (h_prm ?h)" and b: "0 \<le> c0_cool (h_prm ?h)"
    by (simp_all add: fresh_fields warm_params_fields)
  have c: "ssd_step ?rs (Some ?h) 0 1 None = (Some (fst (step_body ?rs ?h 0 1)), None)"
    by (simp add: ssd_step_Some)
  have cr: "ssd_create ?rs 2 (Some warm_params) 1 = Some ?h"
    by (simp add: ssd_create_fresh const_rng_fields)
  have j: "out_did_jump (snd (step_body ?rs ?h 0 1)) = 1"
    by (simp add: did_jump_iff warm_jump)
  have p: "h_prm (fst (step_body ?rs ?h 0 1)) = warm_params"
    by (simp add: step_body_prm fresh_fields)
  show ?thesis
    using invariants_after_step [OF d a b c] d a b cr j
    by (simp only: list_all_iff p fresh_fields) simp
qed

lemma leak_params_fields:
  "G0 leak_params = 0" "g leak_params = 1" "eps_noise leak_params = 0" "eta leak_params = 0"
  "rho leak_params = 0" "lam leak_params = 0" "kappa_min leak_params = 0"
  "alpha leak_params = 0" "beta_E leak_params = 0" "Theta0 leak_params = 1"
  "a1 leak_params = 0" "a2 leak_params = 0" "h0 leak_params = 1" "gamma leak_params = 1"
  "T0 leak_params = 1" "c1 leak_params = 0" "c2 leak_params = 0" "sigma leak_params = 0"
  "delta_w leak_params = 0" "delta_kappa leak_params = - 1" "c0_cool leak_params = - 1"
  "q_relax leak_params = 0" "eps_relax leak_params = 1 / 4"
  by (simp_all add: leak_params_def)

lemma leak_state_fields:
  "h_N leak_state = 2" "h_current leak_state = 0" "h_kappa leak_state = [0, 0, 0, 1]"
  "h_w leak_state = [0, 0, 0, 0]" "h_E leak_state = 1" "h_F leak_state = 0"
  "h_T leak_state = 1" "h_pi leak_state = [1 / 2, 1 / 2]" "h_prm leak_state = leak_params"
  by (simp_all add: leak_state_def)

lemma tame_leak_params: "tame_params leak_params"
  by (simp add: tame_params_def in_range_def leak_params_def)

lemma step_defined_leak: "step_defined (const_rng (1 / 4) 0) leak_state 1 1"
  by (simp add: step_defined_def wf_handle_def leak_state_fields tame_leak_params
      uniform01_const_rng const_rng_fields in_range_def)

lemma leak_flow: "flow_of (const_rng (1 / 4) 0) leak_state 1 = [0, 0, 0, 1]"
  by (simp add: flow_of_def leak_state_fields leak_params_fields Let_def)

lemma leak_kappa: "UpdateKappa leak_params 1 1 [0, 0, 0, 1] [0, 0, 0, 1] = [0, 0, 0, 1]"
  by (simp add: UpdateKappa_def leak_params_fields Let_def)

lemma leak_heat: "heat_of (const_rng (1 / 4) 0) leak_state 1 1 = 1"
  by (simp add: heat_of_def leak_flow UpdateHeat_def J_norm_of_def leak_state_fields
      leak_params_fields Let_def)

lemma leak_hrate: "hrate_of (const_rng (1 / 4) 0) leak_state 1 1 = 1"
  by (simp add: hrate_of_def leak_heat Theta_of_def leak_state_fields leak_params_fields)

lemma leak_jump: "takes_jump (const_rng (1 / 4) 0) leak_state 1 1"
  using exp_m1_upper
  by (simp add: takes_jump_def jump_draw_def const_rng_fields leak_hrate)

lemma leak_pre: "pre_branch (const_rng (1 / 4) 0) leak_state 1 1 = leak_state"
  by (simp add: pre_branch_def leak_heat leak_flow leak_state_fields leak_kappa jump_draw_def
      const_rng_fields leak_params_fields)

lemma leak_logits: "jump_logits (const_rng (1 / 4) 0) leak_state = ([- 1, 0], ())"
  by (simp add: jump_logits_def leak_state_fields leak_params_fields const_rng_fields idx_def
      Let_def upto_rec1)

lemma leak_selected: "jump_selected (const_rng (1 / 4) 0) leak_state = 0"
  using softmax_self_loop_weight
  by (simp add: jump_selected_def leak_logits leak_state_fields const_rng_fields softmax_two)

lemma leak_relax:
  "RelaxTop leak_params 2 [0, 0, 0, 1] [- 1, 0, 0, 1] = [- 1, 0, 0, 3 / 4]"
  by (simp add: RelaxTop_def partial_sort_indices_def relax_count_def c_round_def
      leak_params_fields sort_key_def upt_conv_Cons)

text \<open>
  C1 as stated fails. A well-formed handle of two nodes, inertia 1 on the edge (1,1) and 0 elsewhere, heat 1,
  current node 0, \<open>kappa_min = 0\<close>, \<open>delta_kappa = -1\<close>, \<open>c0_cool = -1\<close>; drive 1, \<open>dt = 1\<close>, both
  uniform draws 1/4: a step within range. The step jumps (1/4 is below \<open>1 - exp (-1)\<close>), samples node 0, rewires
  the edge (0,0) to inertia \<open>-1\<close> with no floor, cools the heat to \<open>-1\<close>, and relaxes only the
  edge (1,1), the one of largest flow.
\<close>

theorem floor_and_heat_violated:
  "step_defined (const_rng (1 / 4) 0) leak_state 1 1
   \<and> map_option h_kappa (fst (ssd_step (const_rng (1 / 4) 0) (Some leak_state) 1 1 None))
     = Some [- 1, 0, 0, 3 / 4]
   \<and> map_option h_E (fst (ssd_step (const_rng (1 / 4) 0) (Some leak_state) 1 1 None)) = Some (- 1)
   \<and> kappa_min (h_prm leak_state) = 0"
proof -
  have k: "h_kappa (fst (JumpBranch (const_rng (1 / 4) 0) leak_state [0, 0, 0, 1]))
             = [- 1, 0, 0, 3 / 4]"
    unfolding JumpBranch_fields leak_selected
    by (simp add: leak_state_fields leak_params_fields idx_def leak_relax)
  have e: "h_E (fst (JumpBranch (const_rng (1 / 4) 0) leak_state [0, 0, 0, 1])) = - 1"
    unfolding JumpBranch_fields by (simp add: leak_state_fields leak_params_fields)
  show ?thesis
    by (simp add: step_defined_leak ssd_step_Some step_body_state leak_jump leak_pre leak_flow k e
        leak_state_fields leak_params_fields)
qed

section \<open>Self-loop suppression (C7)\<close>







section \<open>Stepping with no drive and no time (C2)\<close>

text \<open>
  At \<open>dt = 0\<close> phases 2 and 3 change nothing (above the floors) and the jump test fails.
\<close>

lemma UpdateKappa_dt0:
  assumes "length j = length kappa" and "\<forall>x\<in>set kappa. kappa_min prm \<le> x"
  shows "UpdateKappa prm p 0 kappa j = kappa"
  using assms
proof (induction kappa arbitrary: j)
  case Nil
  then show ?case by (simp add: UpdateKappa_def)
next
  case (Cons k kappa)
  then obtain y ys where j: "j = y # ys" by (cases j) auto
  have "UpdateKappa prm p 0 kappa ys = kappa"
    using Cons.prems by (intro Cons.IH) (simp_all add: j)
  then show ?case
    using Cons.prems(2) by (simp add: j UpdateKappa_def Let_def max_def)
qed

lemma UpdateHeat_dt0: "0 \<le> E \<Longrightarrow> UpdateHeat prm p 0 J E = E"
  by (simp add: UpdateHeat_def Let_def)

lemma no_jump_dt0: "uniform01 rs \<Longrightarrow> \<not> takes_jump rs h p 0"
  by (simp add: takes_jump_def jump_draw_def uniform01_def not_less)

lemma uniform01_replay_rng:
  assumes "us \<noteq> []" and "\<forall>u\<in>set us. 0 \<le> u \<and> u < 1"
  shows "uniform01 (replay_rng us z)"
proof -
  have "us ! (r mod length us) \<in> set us" for r
    using assms(1) by simp
  then show ?thesis
    using assms(2) by (simp add: uniform01_def replay_rng_def)
qed

lemma replay_rng_fields:
  "rs_uniform (replay_rng us z) r = (us ! (r mod length us), Suc r)"
  "rs_normal (replay_rng us z) r = (z, r)"
  "rs_seed (replay_rng us z) s = 0"
  by (simp_all add: replay_rng_def)

lemma default_params_fields:
  "G0 default_params = 1 / 2" "g default_params = 7 / 10" "eps_noise default_params = 0"
  "eta default_params = 3 / 10" "rho default_params = 3 / 10" "lam default_params = 1 / 50"
  "kappa_min default_params = 0" "alpha default_params = 3 / 5" "beta_E default_params = 3 / 20"
  "eps0 default_params = 1 / 50" "d1 default_params = 1 / 5" "d2 default_params = 1 / 5"
  by (simp_all add: default_params_def)

lemma still_flow:
  "flow_of (replay_rng [1 / 4, 1 / 100, 3 / 4] 0) (fresh 2 default_params 0) 0 = [0, 0, 0, 0]"
  by (simp add: flow_of_def fresh_fields default_params_fields Let_def four)

lemma still_kappa: "UpdateKappa default_params 0 0 (replicate 4 0) [0, 0, 0, 0] = [0, 0, 0, 0]"
  by (simp add: UpdateKappa_def default_params_fields Let_def four)

lemma still_heat:
  "heat_of (replay_rng [1 / 4, 1 / 100, 3 / 4] 0) (fresh 2 default_params 0) 0 0 = 0"
  by (simp add: heat_of_def UpdateHeat_def Let_def fresh_fields)

lemma still_mean:
  "kappa_mean_of (replay_rng [1 / 4, 1 / 100, 3 / 4] 0) (fresh 2 default_params 0) 0 0 = 0"
  by (simp add: kappa_mean_of_def still_flow fresh_fields still_kappa)

lemma still_pre_fields:
  "h_kappa (pre_branch (replay_rng [1 / 4, 1 / 100, 3 / 4] 0) (fresh 2 default_params 0) 0 0)
     = [0, 0, 0, 0]"
  "h_E (pre_branch (replay_rng [1 / 4, 1 / 100, 3 / 4] 0) (fresh 2 default_params 0) 0 0) = 0"
  "h_rng (pre_branch (replay_rng [1 / 4, 1 / 100, 3 / 4] 0) (fresh 2 default_params 0) 0 0) = 1"
  by (simp_all add: pre_branch_def still_flow still_kappa still_heat fresh_fields jump_draw_def
      replay_rng_fields flow_of_def [symmetric] AlignFlow_no_noise default_params_fields)

lemma still_nudge:
  "eps_fires (replay_rng [1 / 4, 1 / 100, 3 / 4] 0)
     (pre_branch (replay_rng [1 / 4, 1 / 100, 3 / 4] 0) (fresh 2 default_params 0) 0 0) 0"
  "eps_target (replay_rng [1 / 4, 1 / 100, 3 / 4] 0)
     (pre_branch (replay_rng [1 / 4, 1 / 100, 3 / 4] 0) (fresh 2 default_params 0) 0 0) = 1"
  by (simp_all add: eps_fires_def eps_target_def still_pre_fields pre_branch_fields(1,2,3)
      fresh_fields default_params_fields replay_rng_fields clip_def Let_def)

lemma still_result:
  "h_kappa (fst (step_body (replay_rng [1 / 4, 1 / 100, 3 / 4] 0) (fresh 2 default_params 0) 0 0))
     = [0, 1 / 20, 0, 0]"
  "h_current (fst (step_body (replay_rng [1 / 4, 1 / 100, 3 / 4] 0) (fresh 2 default_params 0) 0 0))
     = 1"
proof -
  let ?rs = "replay_rng [1 / 4, 1 / 100, 3 / 4] 0" and ?h = "fresh 2 default_params 0"
  have u: "uniform01 ?rs" by (rule uniform01_replay_rng) simp_all
  have s: "fst (step_body ?rs ?h 0 0) = fst (EpsGreedyBranch ?rs (pre_branch ?rs ?h 0 0) 0)"
    using no_jump_dt0 [OF u, of ?h 0] by (simp add: step_body_state still_mean)
  show k: "h_kappa (fst (step_body ?rs ?h 0 0)) = [0, 1 / 20, 0, 0]"
    unfolding s EpsGreedyBranch_kappa
    by (simp add: still_nudge still_pre_fields pre_branch_fields(1,3) fresh_fields idx_def)
  show "h_current (fst (step_body ?rs ?h 0 0)) = 1"
    unfolding s EpsGreedyBranch_current k [unfolded s]
    by (simp add: pre_branch_fields(1,3) fresh_fields idx_def upto_rec1)
qed

lemma eps_target_range:
  assumes "uniform01 rs" and "0 < h_N h"
  shows "0 \<le> eps_target rs h \<and> eps_target rs h < h_N h"
proof -
  let ?u = "fst (rs_uniform rs (snd (rs_uniform rs (h_rng h))))"
  have u: "0 \<le> ?u" "?u < 1" using assms(1) by (simp_all add: uniform01_def)
  have n: "0 < real_of_int (h_N h)" using assms(2) by simp
  have "0 \<le> ?u * real_of_int (h_N h)" using u(1) n by simp
  then have lo: "0 \<le> \<lfloor>?u * real_of_int (h_N h)\<rfloor>" by simp
  have "?u * real_of_int (h_N h) < 1 * real_of_int (h_N h)"
    using u(2) n by (rule mult_strict_right_mono)
  then have hi: "\<lfloor>?u * real_of_int (h_N h)\<rfloor> < h_N h" by (simp add: floor_less_iff)
  show ?thesis using lo hi by (simp add: eps_target_def Let_def)
qed

lemma fresh_still_kappa:
  "h_kappa (pre_branch rs (fresh 2 default_params r) 0 0) = [0, 0, 0, 0]"
proof -
  have n: "\<not> eps_noise default_params > 0" by (simp add: default_params_fields)
  have "flow_of rs (fresh 2 default_params r) 0 = [0, 0, 0, 0]"
    unfolding flow_of_def fresh_fields AlignFlow_no_noise [OF n] by (simp add: four)
  then show ?thesis
    by (simp add: pre_branch_fields fresh_fields still_kappa)
qed

lemma fresh_still_current:
  assumes "uniform01 rs"
  shows "h_current (fst (step_body rs (fresh 2 default_params r) 0 0)) = 1"
proof -
  let ?h = "fresh 2 default_params r"
  let ?b = "pre_branch rs ?h 0 0"
  let ?km = "kappa_mean_of rs ?h 0 0"
  have s: "fst (step_body rs ?h 0 0) = fst (EpsGreedyBranch rs ?b ?km)"
    using no_jump_dt0 [OF assms, of ?h 0] by (simp add: step_body_state)
  have f: "h_N ?b = 2" "h_current ?b = 0"
    by (simp_all add: pre_branch_fields(1,3) fresh_fields)
  have "0 \<le> eps_target rs ?b \<and> eps_target rs ?b < h_N ?b"
    using assms by (rule eps_target_range) (simp add: f)
  then have t: "eps_target rs ?b = 0 \<or> eps_target rs ?b = 1"
    unfolding f by arith
  have k: "h_kappa (fst (EpsGreedyBranch rs ?b ?km)) = [0, 0, 0, 0]
         \<or> h_kappa (fst (EpsGreedyBranch rs ?b ?km)) = [0, 1 / 20, 0, 0]"
    using t unfolding EpsGreedyBranch_kappa f fresh_still_kappa by (auto simp: idx_def)
  have b: "best_from ks 0 2 [0..2 - 1] 0 (- (10 ^ 300)) = 1"
    if "ks = [0, 0, 0, 0] \<or> ks = [0, 1 / 20, 0, 0]" for ks :: "real list"
    using that by (auto simp: upto_rec1 idx_def)
  show ?thesis
    unfolding s EpsGreedyBranch_current f by (rule b) (rule k)
qed

text \<open>
  C2 fails on the code. A handle created with two nodes and the default parameters, from
  any seed, and stepped with drive 0 and \<open>dt = 0\<close> does not keep its current node: the step
  takes no jump, and the no-jump branch, which looks at neither the drive nor \<open>dt\<close>, sets the
  current node to the row argmax with the self entry lowered by \<open>1e-6\<close>, so that from
  all-zero inertia node 1 is chosen over node 0. This holds for every generator whose uniform
  draws lie in [0,1).
\<close>

theorem no_drive_step_moves:
  assumes "uniform01 rs"
  shows "\<exists>h. ssd_create rs 2 None seed = Some h \<and> h_current h = 0 \<and> h_kappa h = [0, 0, 0, 0]
           \<and> map_option h_current (fst (ssd_step rs (Some h) 0 0 out)) = Some 1"
proof -
  let ?h = "fresh 2 default_params (rs_seed rs (if seed = 0 then 123456789 else seed))"
  have c: "ssd_create rs 2 None seed = Some ?h" by (simp add: ssd_create_fresh)
  have m: "h_current (fst (step_body rs ?h 0 0)) = 1"
    using assms by (rule fresh_still_current)
  show ?thesis
    unfolding c by (intro exI [of _ ?h] conjI) (simp_all add: fresh_fields four ssd_step_Some m)
qed

text \<open>
  Witness of C2: the uniform draws 1/4 (jump test), 1/100 (below \<open>eps = 0.02\<close>) and 3/4
  (target node \<open>floor (0.75 * 2) = 1\<close>). Here the nudge also takes the inertia of the edge
  (0,1) from 0 to 0.05.
\<close>

theorem no_drive_step_moves_witness:
  "uniform01 (replay_rng [1 / 4, 1 / 100, 3 / 4] 0)
   \<and> ssd_create (replay_rng [1 / 4, 1 / 100, 3 / 4] 0) 2 None 1 = Some (fresh 2 default_params 0)
   \<and> h_kappa (fresh 2 default_params (0::nat)) = [0, 0, 0, 0]
   \<and> h_current (fresh 2 default_params (0::nat)) = 0
   \<and> map_option h_kappa
        (fst (ssd_step (replay_rng [1 / 4, 1 / 100, 3 / 4] 0) (Some (fresh 2 default_params 0)) 0 0
           None)) = Some [0, 1 / 20, 0, 0]
   \<and> map_option h_current
        (fst (ssd_step (replay_rng [1 / 4, 1 / 100, 3 / 4] 0) (Some (fresh 2 default_params 0)) 0 0
           None)) = Some 1"
proof -
  let ?rs = "replay_rng [1 / 4, 1 / 100, 3 / 4] 0"
  have u: "uniform01 ?rs" by (rule uniform01_replay_rng) simp_all
  have c: "ssd_create ?rs 2 None 1 = Some (fresh 2 default_params 0)"
    by (simp add: ssd_create_fresh replay_rng_fields)
  have k: "map_option h_kappa (fst (ssd_step ?rs (Some (fresh 2 default_params 0)) 0 0 None))
             = Some [0, 1 / 20, 0, 0]"
    by (simp add: ssd_step_Some still_result)
  show ?thesis
    using no_drive_step_moves [OF u, of 1 None] u k
    by (simp add: c fresh_fields four)
qed

section \<open>The two implementations of the step (C10)\<close>

lemma maxv_loop_drop:
  "a \<le> length logits \<Longrightarrow>
   maxv_loop logits m [a..<length logits] = foldl max m (drop a logits)"
proof (induction "length logits - a" arbitrary: a m)
  case 0
  then show ?case by simp
next
  case (Suc d)
  then have lt: "a < length logits" by simp
  have d: "d = length logits - Suc a" using Suc.hyps(2) by simp
  have "maxv_loop logits (max m (logits ! a)) [Suc a..<length logits]
          = foldl max (max m (logits ! a)) (drop (Suc a) logits)"
    using lt by (intro Suc.hyps(1) [OF d]) simp
  moreover have "maxv_loop logits m [a..<length logits]
          = maxv_loop logits (max m (logits ! a)) [Suc a..<length logits]"
    using lt by (simp add: upt_conv_Cons max_def)
  moreover have "foldl max m (drop a logits)
          = foldl max (max m (logits ! a)) (drop (Suc a) logits)"
    using lt by (simp add: Cons_nth_drop_Suc [symmetric])
  ultimately show ?case by (simp only:)
qed

lemma maxv_loop_max_element:
  assumes "logits \<noteq> []"
  shows "maxv_loop logits (logits ! 0) [1..<length logits] = max_element logits"
proof -
  have "Suc 0 \<le> length logits" using assms by (cases logits) simp_all
  then have "maxv_loop logits (logits ! 0) [Suc 0..<length logits]
               = foldl max (logits ! 0) (drop (Suc 0) logits)"
    by (rule maxv_loop_drop)
  then show ?thesis
    using assms by (simp add: max_element_def hd_conv_nth drop_Suc)
qed

lemma softmax_temp_dll_eq: "softmax_temp_dll logits T = softmax_temp logits T"
proof (cases "logits = []")
  case True
  then show ?thesis by (simp add: softmax_temp_dll_def softmax_temp_def)
next
  case False
  show ?thesis
    by (simp only: softmax_temp_dll_def softmax_temp_def Let_def maxv_loop_max_element [OF False])
qed

lemma floor_as_max: "(if k < m then m else k) = max k (m::real)"
  by (simp add: max_def)

lemma UpdateKappa_dll_eq: "UpdateKappa_dll prm p dt kappa j = UpdateKappa prm p dt kappa j"
  by (simp add: UpdateKappa_dll_def UpdateKappa_def Let_def floor_as_max)

lemma UpdateHeat_dll_eq: "UpdateHeat_dll prm p dt J E = UpdateHeat prm p dt J E"
  by (simp add: UpdateHeat_dll_def UpdateHeat_def Let_def floor_as_max)

lemma RelaxTop_dll_eq: "RelaxTop_dll prm n j kappa = RelaxTop prm n j kappa"
  by (simp add: RelaxTop_dll_def RelaxTop_def Let_def floor_as_max)

lemma JumpBranch_dll_eq: "JumpBranch_dll rs h j = JumpBranch rs h j"
  by (simp add: JumpBranch_dll_def JumpBranch_def Let_def softmax_temp_dll_eq RelaxTop_dll_eq)

lemma step_body_dll_unfold:
  "step_body_dll rs h p dt =
     (let br = (if takes_jump rs h p dt
                then JumpBranch rs (pre_branch rs h p dt) (flow_of rs h p)
                else EpsGreedyBranch rs (pre_branch rs h p dt) (kappa_mean_of rs h p dt))
      in (fst br,
          \<lparr>out_E = h_E (fst br), out_Theta = Theta_of rs h p dt, out_h = hrate_of rs h p dt,
           out_T = h_T (fst br), out_H = entropy_of (fst br),
           out_J_norm = J_norm_of (flow_of rs h p),
           out_align_eff = (if \<bar>p\<bar> > 1 / 10 ^ 8 then J_norm_of (flow_of rs h p) / \<bar>p\<bar> else 0),
           out_kappa_mean = kappa_mean_of rs h p dt, out_current = h_current (fst br),
           out_did_jump = (if takes_jump rs h p dt then 1 else 0), out_rewired_to = snd br\<rparr>))"
  by (simp add: step_body_dll_def UpdateKappa_dll_eq UpdateHeat_dll_eq JumpBranch_dll_eq
      takes_jump_def pre_branch_def flow_of_def kappa_mean_of_def
      hrate_of_def Theta_of_def heat_of_def entropy_of_def jump_draw_def Let_def)

lemma step_body_dll_eq:
  "step_body_dll rs h p dt =
     (fst (step_body rs h p dt),
      (snd (step_body rs h p dt))\<lparr>out_H := entropy_of (fst (step_body rs h p dt))\<rparr>)"
  by (simp add: step_body_dll_unfold step_body_unfold Let_def)

lemma ssd_step_dll_Some:
  "ssd_step_dll rs (Some h) p dt out =
     (Some (fst (step_body_dll rs h p dt)), map_option (\<lambda>_. snd (step_body_dll rs h p dt)) out)"
  by (cases out) (simp_all add: ssd_step_dll_def Let_def)

lemma ln_less_minus_one:
  assumes "0 < x" and "x \<noteq> 1"
  shows "ln x < x - (1::real)"
  using ln_le_minus_one [OF assms(1)] ln_eq_minus_one [OF assms(1)] assms(2)
  by (cases "ln x = x - 1") auto

lemma entropy_part:
  assumes "0 < a"
  shows "- (a * ln a) \<le> 1 / 2 - a + a * ln (2::real)"
proof -
  have "ln (1 / (2 * a)) \<le> 1 / (2 * a) - 1"
    using assms by (intro ln_le_minus_one) simp
  moreover have "ln (1 / (2 * a)) = - ln 2 - ln a"
    using assms by (simp add: ln_div ln_mult)
  ultimately have "- ln 2 - ln a \<le> 1 / (2 * a) - 1" by simp
  then have "a * (- ln 2 - ln a) \<le> a * (1 / (2 * a) - 1)"
    using assms by (intro mult_left_mono) simp_all
  moreover have "a * (1 / (2 * a) - 1) = 1 / 2 - a"
    using assms by (simp add: field_simps)
  ultimately show ?thesis by (simp add: algebra_simps)
qed

lemma entropy_part_strict:
  assumes "0 < a" and "a \<noteq> 1 / 2"
  shows "- (a * ln a) < 1 / 2 - a + a * ln (2::real)"
proof -
  have "1 / (2 * a) \<noteq> 1" using assms by (simp add: field_simps)
  then have "ln (1 / (2 * a)) < 1 / (2 * a) - 1"
    using assms by (intro ln_less_minus_one) simp_all
  moreover have "ln (1 / (2 * a)) = - ln 2 - ln a"
    using assms by (simp add: ln_div ln_mult)
  ultimately have "- ln 2 - ln a < 1 / (2 * a) - 1" by simp
  then have "a * (- ln 2 - ln a) < a * (1 / (2 * a) - 1)"
    using assms by (intro mult_strict_left_mono) simp_all
  moreover have "a * (1 / (2 * a) - 1) = 1 / 2 - a"
    using assms by (simp add: field_simps)
  ultimately show ?thesis by (simp add: algebra_simps)
qed

lemma entropy_two_less:
  assumes "0 < a" and "0 < b" and "a + b = 1" and "a \<noteq> 1 / 2"
  shows "- (a * ln a) - b * ln b < ln (2::real)"
proof -
  have "- (a * ln a) < 1 / 2 - a + a * ln 2" using assms(1,4) by (rule entropy_part_strict)
  moreover have "- (b * ln b) \<le> 1 / 2 - b + b * ln 2" using assms(2) by (rule entropy_part)
  ultimately have "- (a * ln a) - b * ln b < 1 - (a + b) + (a + b) * ln 2"
    by (simp add: algebra_simps)
  then show ?thesis by (simp add: assms(3))
qed

lemma entropy_norm_uniform2: "entropy_norm [1 / 2, 1 / 2] = 1"
proof -
  have "ln (1 / 2 :: real) = - ln 2" by (simp add: ln_div)
  moreover have "0 < ln (2::real)" by simp
  ultimately show ?thesis by (simp add: entropy_norm_def Let_def)
qed

lemma entropy_norm_two_less:
  assumes "1 / 10 ^ 12 < a" and "1 / 10 ^ 12 < b" and "a + b = 1" and "a \<noteq> 1 / 2"
  shows "entropy_norm [a, b] < 1"
proof -
  have pa: "0 < a" and pb: "0 < b"
    using assms(1,2) by (auto elim: less_trans [rotated])
  have "- (a * ln a) - b * ln b < ln 2" using pa pb assms(3,4) by (rule entropy_two_less)
  moreover have "0 < ln (2::real)" by simp
  ultimately show ?thesis
    using assms(1,2) by (simp add: entropy_norm_def Let_def not_le)
qed

lemma warm_step_pi:
  "h_pi (fst (step_body (const_rng (1 / 4) 0) (fresh 2 warm_params ()) 0 1))
     = [exp (- 1) / (exp (- 1) + 1), 1 / (exp (- 1) + 1)]"
  by (simp add: step_body_jump_pi [OF warm_jump] warm_logits warm_pre_fields softmax_two)

lemma warm_entropy_after:
  "entropy_norm [exp (- 1) / (exp (- 1) + 1), 1 / (exp (- 1) + 1)] < 1"
proof (rule entropy_norm_two_less)
  have p: "0 < exp (- 1 :: real) + 1" by (simp add: add_pos_pos)
  show "1 / 10 ^ 12 < exp (- 1) / (exp (- 1) + 1 :: real)"
    using softmax_self_loop_weight by (rule less_le_trans [rotated]) simp
  have "exp (- 1 :: real) + 1 < 2" using exp_m1_upper by simp
  then have "1 / 2 < 1 / (exp (- 1) + 1 :: real)"
    using p by (simp add: field_simps)
  then show "1 / 10 ^ 12 < 1 / (exp (- 1) + 1 :: real)"
    by (rule less_trans [rotated]) simp
  show "exp (- 1) / (exp (- 1) + 1) + 1 / (exp (- 1) + 1) = (1::real)"
    using p by (simp add: field_simps)
  have "exp (- 1 :: real) < 1" by simp
  then show "exp (- 1) / (exp (- 1) + 1) \<noteq> (1 / 2 :: real)"
    using p by (simp add: field_simps)
qed

text \<open>
  C10 fails on the code. A fresh two-node handle with \<open>warm_params\<close>, drive 0, \<open>dt = 1\<close>,
  uniform draws 1/4: both steps jump, leave the same handle and write the same telemetry
  but for the field \<open>H\<close>. There \<^verbatim>\<open>ssd_core.cpp\<close> reports 1, the entropy of the uniform
  policy it started from (computed in phase 4), and \<^verbatim>\<open>ssd_align_leap_dll.cpp\<close> reports
  the entropy of the policy that the jump has just written, which is below 1.
\<close>

theorem dll_entropy_differs:
  "map_option out_H
     (snd (ssd_step (const_rng (1 / 4) 0) (Some (fresh 2 warm_params ())) 0 1
        (Some zero_telemetry))) = Some 1
   \<and> map_option (\<lambda>t. out_H t < 1)
     (snd (ssd_step_dll (const_rng (1 / 4) 0) (Some (fresh 2 warm_params ())) 0 1
        (Some zero_telemetry))) = Some True
   \<and> fst (ssd_step_dll (const_rng (1 / 4) 0) (Some (fresh 2 warm_params ())) 0 1
        (Some zero_telemetry))
     = fst (ssd_step (const_rng (1 / 4) 0) (Some (fresh 2 warm_params ())) 0 1
        (Some zero_telemetry))
   \<and> map_option (\<lambda>t. t\<lparr>out_H := 0\<rparr>)
       (snd (ssd_step_dll (const_rng (1 / 4) 0) (Some (fresh 2 warm_params ())) 0 1
          (Some zero_telemetry)))
     = map_option (\<lambda>t. t\<lparr>out_H := 0\<rparr>)
       (snd (ssd_step (const_rng (1 / 4) 0) (Some (fresh 2 warm_params ())) 0 1
          (Some zero_telemetry)))"
proof -
  let ?rs = "const_rng (1 / 4) 0" and ?h = "fresh 2 warm_params ()"
  have "out_H (snd (step_body ?rs ?h 0 1)) = 1"
    by (simp add: step_body_unfold Let_def entropy_of_def fresh_fields replicate_two
        entropy_norm_uniform2)
  moreover have "out_H (snd (step_body_dll ?rs ?h 0 1)) < 1"
    using warm_entropy_after by (simp add: step_body_dll_eq entropy_of_def warm_step_pi)
  moreover have "fst (step_body_dll ?rs ?h 0 1) = fst (step_body ?rs ?h 0 1)"
    "(snd (step_body_dll ?rs ?h 0 1))\<lparr>out_H := 0\<rparr> = (snd (step_body ?rs ?h 0 1))\<lparr>out_H := 0\<rparr>"
    by (simp_all add: step_body_dll_eq)
  ultimately show ?thesis
    by (simp add: ssd_step_Some ssd_step_dll_Some)
qed

end
